theory Spec2Isabelle
  imports Complex_Main "HOL-Library.Char_ord" "HOL-Library.List_Lexorder"
begin

chapter \<open>The model\<close>

section \<open>Python strings\<close>

text \<open>
  A Python \<open>str\<close> is a sequence of code points. The model keeps the code points below 256:
  a \<^typ>\<open>char\<close> is read as the code point with that number (ASCII and the Latin-1 block),
  so \<^const>\<open>length\<close> counts what Python's \<open>len\<close> counts. The character classes below are
  the ones Python 3 uses for \<open>str\<close> on that range.
\<close>

definition code :: "char \<Rightarrow> nat" where
  "code c = of_char c"

text \<open>\<open>str.isspace\<close>, the class stripped by \<open>str.strip()\<close> and matched by the pattern \<open>\s\<close>:
  TAB, LF, VT, FF, CR, the separators FS, GS, RS, US, the space, NEL and the no-break space.\<close>

definition is_space :: "char \<Rightarrow> bool" where
  "is_space c = ((9 \<le> code c \<and> code c \<le> 13) \<or> (28 \<le> code c \<and> code c \<le> 32)
                  \<or> code c = 133 \<or> code c = 160)"

definition is_digit :: "char \<Rightarrow> bool" where
  "is_digit c = (48 \<le> code c \<and> code c \<le> 57)"

definition is_lower_az :: "char \<Rightarrow> bool" where
  "is_lower_az c = (97 \<le> code c \<and> code c \<le> 122)"

definition is_upper_AZ :: "char \<Rightarrow> bool" where
  "is_upper_AZ c = (65 \<le> code c \<and> code c \<le> 90)"

text \<open>\<open>str.lower()\<close>: A..Z and the Latin-1 capitals (all of 192..222 but the multiplication
  sign 215) move up by 32; every other code point below 256 stays.\<close>

definition lower_char :: "char \<Rightarrow> char" where
  "lower_char c =
     (if is_upper_AZ c \<or> (192 \<le> code c \<and> code c \<le> 222 \<and> code c \<noteq> 215)
      then char_of (code c + 32) else c)"

definition lower :: "string \<Rightarrow> string" where
  "lower s = map lower_char s"

definition strip :: "string \<Rightarrow> string" where
  "strip s = rev (dropWhile is_space (rev (dropWhile is_space s)))"

text \<open>\<open>s.replace("&", " and ")\<close> and \<open>s.replace("-", " ")\<close>.\<close>

definition replace_amp :: "string \<Rightarrow> string" where
  "replace_amp s = concat (map (\<lambda>c. if c = CHR ''&'' then '' and '' else [c]) s)"

definition replace_hyphen :: "string \<Rightarrow> string" where
  "replace_hyphen s = map (\<lambda>c. if c = CHR ''-'' then CHR '' '' else c) s"

text \<open>\<open>re.sub(r"\s+", " ", s)\<close>: every maximal run of white space becomes one space.\<close>

function collapse_ws :: "string \<Rightarrow> string" where
  "collapse_ws [] = []"
| "collapse_ws (c # cs) =
     (if is_space c then CHR '' '' # collapse_ws (dropWhile is_space cs)
      else c # collapse_ws cs)"
  by pat_completeness auto
termination
  by (relation "measure length") (auto simp: less_Suc_eq_le length_dropWhile_le)

text \<open>\<open>re.sub(r"[^a-z0-9 ]", "", s)\<close>: only a..z, 0..9 and the space survive.\<close>

definition keep_char :: "char \<Rightarrow> bool" where
  "keep_char c = (is_lower_az c \<or> is_digit c \<or> c = CHR '' '')"

definition drop_punct :: "string \<Rightarrow> string" where
  "drop_punct s = filter keep_char s"

section \<open>Name canonicalizer\<close>

text \<open>\<open>canonical(s)\<close> of \<open>paper_replicate.py\<close>; \<open>None\<close> is the Python \<open>None\<close>.\<close>

definition canonical :: "string option \<Rightarrow> string" where
  "canonical v =
     (case v of
        None \<Rightarrow> []
      | Some s0 \<Rightarrow>
          (let s1 = lower (strip s0);
               s2 = replace_amp s1;
               s3 = replace_hyphen s2;
               s4 = collapse_ws s3;
               s5 = drop_punct s4
           in strip s5))"

section \<open>Labeling driver: reading the oracle's answer\<close>

text \<open>The pattern class \<open>\w\<close> for \<open>str\<close>: what \<open>str.isalnum\<close> accepts, and the underscore.
  Below 256 these are the ASCII letters and digits, the Latin-1 letters, the ordinal
  indicators, the micro sign, the superscript digits and the vulgar fractions.\<close>

definition is_word :: "char \<Rightarrow> bool" where
  "is_word c = (is_digit c \<or> is_upper_AZ c \<or> is_lower_az c \<or> c = CHR ''_''
     \<or> code c = 170 \<or> code c = 178 \<or> code c = 179 \<or> code c = 181 \<or> code c = 185 \<or> code c = 186
     \<or> (188 \<le> code c \<and> code c \<le> 190) \<or> (192 \<le> code c \<and> code c \<le> 214)
     \<or> (216 \<le> code c \<and> code c \<le> 246) \<or> 248 \<le> code c)"

definition is_bit :: "char \<Rightarrow> bool" where
  "is_bit c = (c = CHR ''0'' \<or> c = CHR ''1'')"

text \<open>\<open>\b\<close> before and after a word character: the neighbour is missing or is not a word
  character.\<close>

definition boundary_before :: "char option \<Rightarrow> bool" where
  "boundary_before prev = (case prev of None \<Rightarrow> True | Some p \<Rightarrow> \<not> is_word p)"

definition boundary_after :: "string \<Rightarrow> bool" where
  "boundary_after rest = (case rest of [] \<Rightarrow> True | d # _ \<Rightarrow> \<not> is_word d)"

text \<open>\<open>re.search(r"\b([01])\b", txt)\<close>: the leftmost \<open>0\<close> or \<open>1\<close> with a word boundary on both
  sides; \<open>prev\<close> is the character before the rest still to scan.\<close>

fun search_standalone :: "char option \<Rightarrow> string \<Rightarrow> char option" where
  "search_standalone prev [] = None"
| "search_standalone prev (c # cs) =
     (if is_bit c \<and> boundary_before prev \<and> boundary_after cs then Some c
      else search_standalone (Some c) cs)"

text \<open>\<open>re.search(r"^[\s\n\r]*([01])", txt)\<close>: white space from the start of the text, then
  \<open>0\<close> or \<open>1\<close>.\<close>

definition search_leading :: "string \<Rightarrow> char option" where
  "search_leading rsp =
     (case dropWhile is_space rsp of
        [] \<Rightarrow> None
      | c # _ \<Rightarrow> if is_bit c then Some c else None)"

definition int_of_bit :: "char \<Rightarrow> int" where
  "int_of_bit c = (if c = CHR ''1'' then 1 else 0)"

text \<open>The calls of \<open>warnings.warn\<close>, by what they report.\<close>

datatype warning =
    CouldNotParseBinary string
  | IdMissingFallback "string option"

text \<open>\<open>resp.choices[0].message.content or ""\<close>.\<close>

definition response_text :: "string option \<Rightarrow> string" where
  "response_text content = (case content of None \<Rightarrow> [] | Some t \<Rightarrow> t)"

text \<open>\<open>llm_predict_binary\<close> from the content of the oracle's message on: the label, and the
  warnings emitted.\<close>

definition llm_predict_binary :: "string option \<Rightarrow> int \<times> warning list" where
  "llm_predict_binary content =
     (let rsp = response_text content in
      case search_standalone None rsp of
        Some d \<Rightarrow> (int_of_bit d, [])
      | None \<Rightarrow>
          (case search_leading rsp of
             Some d \<Rightarrow> (int_of_bit d, [])
           | None \<Rightarrow> (0, [CouldNotParseBinary rsp])))"

section \<open>Python values\<close>

text \<open>A double: its finite values are rationals (the dyadic ones), beside the two
  infinities and NaN. The sign of zero is not kept.\<close>

datatype pyfloat = Fin rat | PosInf | NegInf | NaN

text \<open>The values a table cell or an identifier holds: \<open>None\<close>, an integer, a float (NaN is
  pandas' missing value) or a string.\<close>

datatype pyval = PyNone | PyInt int | PyFloat pyfloat | PyStr string

datatype pyerror = ValueError | TypeError | OverflowError | KeyError | IndexError

text \<open>\<open>pd.isna\<close> on a scalar.\<close>

definition isna :: "pyval \<Rightarrow> bool" where
  "isna v = (v = PyNone \<or> v = PyFloat NaN)"

subsection \<open>Printing integers\<close>

definition digit_char :: "nat \<Rightarrow> char" where
  "digit_char d = char_of (48 + d)"

text \<open>The decimal digits of a natural number, the most significant first.\<close>

function str_digits :: "int \<Rightarrow> string" where
  "str_digits n =
     (if n < 10 then [digit_char (nat n)]
      else str_digits (n div 10) @ [digit_char (nat (n mod 10))])"
  by pat_completeness auto
termination
  by (relation "measure nat") auto

declare str_digits.simps [simp del]

text \<open>\<open>str(i)\<close> for an \<open>int\<close>.\<close>

definition str_int :: "int \<Rightarrow> string" where
  "str_int i = (if i < 0 then CHR ''-'' # str_digits (- i) else str_digits i)"

subsection \<open>Rounding to a double\<close>

definition pow2 :: "int \<Rightarrow> rat" where
  "pow2 e = (if 0 \<le> e then 2 ^ nat e else 1 / 2 ^ nat (- e))"

definition pow10 :: "int \<Rightarrow> rat" where
  "pow10 e = (if 0 \<le> e then 10 ^ nat e else 1 / 10 ^ nat (- e))"

text \<open>The number of binary digits of a positive integer.\<close>

function bitlen :: "int \<Rightarrow> int" where
  "bitlen n = (if n \<le> 0 then 0 else 1 + bitlen (n div 2))"
  by pat_completeness auto
termination
  by (relation "measure nat") auto

declare bitlen.simps [simp del]

text \<open>\<open>ilog2 q\<close> is the exponent of the binade of a positive rational: the \<open>k\<close> with
  \<open>2^k \<le> q < 2^(k+1)\<close>.\<close>

definition ilog2 :: "rat \<Rightarrow> int" where
  "ilog2 q = (if 1 \<le> q then bitlen \<lfloor>q\<rfloor> - 1 else - bitlen (\<lceil>1 / q\<rceil> - 1))"

text \<open>Rounding to the nearest integer, a tie to the even one: Python's \<open>round(f)\<close>, numpy's
  \<open>round\<close>, and the rounding of the significand below.\<close>

definition round_half_even :: "rat \<Rightarrow> int" where
  "round_half_even q =
     (let f = \<lfloor>q\<rfloor>; d = q - of_int f
      in if d < 1 / 2 then f else if 1 / 2 < d then f + 1 else if even f then f else f + 1)"

text \<open>The double nearest to a rational (IEEE 754 binary64, round to nearest, ties to even):
  a significand of 53 bits, the least exponent \<open>-1074\<close>, and overflow to an infinity from
  \<open>2^1024\<close> on.\<close>

definition to_double :: "rat \<Rightarrow> pyfloat" where
  "to_double q =
     (if q = 0 then Fin 0
      else
        (let a = \<bar>q\<bar>;
             e = max (ilog2 a - 52) (- 1074);
             m = round_half_even (a / pow2 e);
             v = of_int m * pow2 e
         in if pow2 1024 \<le> v then (if q < 0 then NegInf else PosInf)
            else Fin (if q < 0 then - v else v)))"

definition isfinite :: "pyfloat \<Rightarrow> bool" where
  "isfinite f = (case f of Fin _ \<Rightarrow> True | _ \<Rightarrow> False)"

subsection \<open>\<open>float(s)\<close> for a string\<close>

text \<open>An underscore in a numeric literal stands between two digits.\<close>

fun underscores_ok :: "char option \<Rightarrow> string \<Rightarrow> bool" where
  "underscores_ok prev [] = (prev \<noteq> Some CHR ''_'')"
| "underscores_ok prev (c # cs) =
     ((if c = CHR ''_'' then (case prev of None \<Rightarrow> False | Some p \<Rightarrow> is_digit p)
       else if prev = Some CHR ''_'' then is_digit c else True)
      \<and> underscores_ok (Some c) cs)"

definition split_sign :: "string \<Rightarrow> bool \<times> string" where
  "split_sign s =
     (case s of
        [] \<Rightarrow> (False, [])
      | c # cs \<Rightarrow> if c = CHR ''-'' then (True, cs) else if c = CHR ''+'' then (False, cs) else (False, s))"

definition digits_value :: "string \<Rightarrow> int" where
  "digits_value ds = foldl (\<lambda>a c. 10 * a + (int (code c) - 48)) 0 ds"

text \<open>The exponent part: nothing, or \<open>e\<close> or \<open>E\<close>, an optional sign and at least one digit.\<close>

definition parse_exponent :: "string \<Rightarrow> int option" where
  "parse_exponent s =
     (case s of
        [] \<Rightarrow> Some 0
      | c # cs \<Rightarrow>
          if c = CHR ''e'' \<or> c = CHR ''E'' then
            (let (neg, ds) = split_sign cs in
             if ds \<noteq> [] \<and> list_all is_digit ds
             then Some (if neg then - digits_value ds else digits_value ds)
             else None)
          else None)"

text \<open>An unsigned decimal literal: digits, an optional point and digits, an optional
  exponent; at least one digit before or after the point. The value is exact.\<close>

definition parse_decimal :: "string \<Rightarrow> rat option" where
  "parse_decimal s =
     (let ip = takeWhile is_digit s;
          r1 = dropWhile is_digit s;
          (fp, r2) = (case r1 of
                        [] \<Rightarrow> ([], [])
                      | c # cs \<Rightarrow> if c = CHR ''.'' then (takeWhile is_digit cs, dropWhile is_digit cs)
                                  else ([], r1))
      in if ip = [] \<and> fp = [] then None
         else (case parse_exponent r2 of
                 None \<Rightarrow> None
               | Some ex \<Rightarrow> Some (of_int (digits_value (ip @ fp)) * pow10 (ex - int (length fp)))))"

text \<open>The white space that \<open>float()\<close> removes around a literal: TAB, LF, VT, FF, CR and the
  space, and the white space beyond ASCII (NEL, the no-break space), which it first turns into
  spaces. The separators FS, GS, RS, US (28 to 31) stay, unlike with \<open>str.strip()\<close>, and make
  the literal invalid.\<close>

definition is_float_space :: "char \<Rightarrow> bool" where
  "is_float_space c = ((9 \<le> code c \<and> code c \<le> 13) \<or> code c = 32 \<or> code c = 133 \<or> code c = 160)"

definition float_strip :: "string \<Rightarrow> string" where
  "float_strip s = rev (dropWhile is_float_space (rev (dropWhile is_float_space s)))"

text \<open>\<open>float(s)\<close>: white space is stripped, underscores are checked and removed, then a sign
  and \<open>inf\<close>, \<open>infinity\<close>, \<open>nan\<close> (in any case) or a decimal literal. \<open>None\<close> is the
  \<open>ValueError\<close>.\<close>

definition float_of_str :: "string \<Rightarrow> pyfloat option" where
  "float_of_str s0 =
     (let s = float_strip s0 in
      if \<not> underscores_ok None s then None
      else
        (let (neg, body) = split_sign (filter (\<lambda>c. c \<noteq> CHR ''_'') s);
             lb = lower body
         in if lb = ''inf'' \<or> lb = ''infinity'' then Some (if neg then NegInf else PosInf)
            else if lb = ''nan'' then Some NaN
            else map_option (\<lambda>q. to_double (if neg then - q else q)) (parse_decimal body)))"

text \<open>\<open>float(v)\<close>. An integer too large for a double raises \<open>OverflowError\<close>.\<close>

definition py_float :: "pyval \<Rightarrow> pyerror + pyfloat" where
  "py_float v =
     (case v of
        PyNone \<Rightarrow> Inl TypeError
      | PyInt i \<Rightarrow> (case to_double (of_int i) of Fin q \<Rightarrow> Inr (Fin q) | _ \<Rightarrow> Inl OverflowError)
      | PyFloat f \<Rightarrow> Inr f
      | PyStr s \<Rightarrow> (case float_of_str s of None \<Rightarrow> Inl ValueError | Some f \<Rightarrow> Inr f))"

text \<open>\<open>str(v)\<close>. The decimal text of a float (Python's shortest round-trip \<open>repr\<close>) is taken
  as the parameter \<open>frepr\<close>.\<close>

definition py_str :: "(pyfloat \<Rightarrow> string) \<Rightarrow> pyval \<Rightarrow> string" where
  "py_str frepr v =
     (case v of
        PyNone \<Rightarrow> ''None''
      | PyInt i \<Rightarrow> str_int i
      | PyFloat f \<Rightarrow> frepr f
      | PyStr s \<Rightarrow> s)"

section \<open>Identifier normalizer\<close>

text \<open>\<open>re.fullmatch(r"(\d+)\.0+", s)\<close>, returning group 1, and
  \<open>re.fullmatch(r"\d+(\.0+)?", s)\<close>.\<close>

definition match_int_zeros :: "string \<Rightarrow> string option" where
  "match_int_zeros s =
     (let ds = takeWhile is_digit s in
      case dropWhile is_digit s of
        [] \<Rightarrow> None
      | c # zs \<Rightarrow>
          if ds \<noteq> [] \<and> c = CHR ''.'' \<and> zs \<noteq> [] \<and> list_all (\<lambda>z. z = CHR ''0'') zs
          then Some ds else None)"

definition match_int_opt_zeros :: "string \<Rightarrow> bool" where
  "match_int_opt_zeros s =
     ((s \<noteq> [] \<and> list_all is_digit s) \<or> match_int_zeros s \<noteq> None)"

text \<open>\<open>s.split(".")[0]\<close>.\<close>

definition before_dot :: "string \<Rightarrow> string" where
  "before_dot s = takeWhile (\<lambda>c. c \<noteq> CHR ''.'') s"

text \<open>\<open>ID_INT_TOL = 1e-9\<close>: the double nearest to \<open>10^-9\<close>.\<close>

definition ID_INT_TOL :: pyfloat where
  "ID_INT_TOL = to_double (1 / 10 ^ 9)"

text \<open>\<open>abs(f - r) < ID_INT_TOL\<close> for a finite \<open>f\<close> and \<open>r = round(f)\<close>: the difference of a
  double and its nearest integer is a double, so the subtraction is exact.\<close>

definition near_int :: "rat \<Rightarrow> int \<Rightarrow> bool" where
  "near_int q r = (case ID_INT_TOL of Fin tol \<Rightarrow> \<bar>q - of_int r\<bar> < tol | _ \<Rightarrow> False)"

text \<open>The end of \<open>_normalize_id_value\<close>, reached when \<open>float(v)\<close> raises or is not finite.\<close>

definition normalize_id_text :: "string \<Rightarrow> pyval" where
  "normalize_id_text s0 =
     (let s = strip s0 in
      case match_int_zeros s of Some g \<Rightarrow> PyStr g | None \<Rightarrow> PyStr s)"

text \<open>\<open>_normalize_id_value(v)\<close>: the result is \<open>np.nan\<close> or a string.\<close>

definition normalize_id_value :: "(pyfloat \<Rightarrow> string) \<Rightarrow> pyval \<Rightarrow> pyval" where
  "normalize_id_value frepr v =
     (if isna v then PyFloat NaN
      else
        (case py_float v of
           Inr (Fin q) \<Rightarrow>
             (let r = round_half_even q in
              if near_int q r then PyStr (str_int r)
              else
                (let s = strip (py_str frepr v) in
                 if match_int_opt_zeros s then PyStr (before_dot s) else PyStr s))
         | _ \<Rightarrow> normalize_id_text (py_str frepr v)))"

text \<open>\<open>make_id_key\<close>: \<open>series.map(_normalize_id_value)\<close>.\<close>

definition make_id_key :: "(pyfloat \<Rightarrow> string) \<Rightarrow> pyval list \<Rightarrow> pyval list" where
  "make_id_key frepr series = map (normalize_id_value frepr) series"

section \<open>Merge planner and executor\<close>

text \<open>Python's truth value of \<open>args.id_col\<close>: \<open>None\<close> and the empty string are false. So
  \<open>args.id_col and (args.id_col in df.columns)\<close> is:\<close>

definition has_id :: "string option \<Rightarrow> string list \<Rightarrow> bool" where
  "has_id id_col cols = (case id_col of None \<Rightarrow> False | Some c \<Rightarrow> c \<noteq> [] \<and> c \<in> set cols)"

text \<open>Step 6 of \<open>main\<close>: the merge keys, and the warning of the fallback.\<close>

definition plan_merge_keys :: "string option \<Rightarrow> string list \<Rightarrow> string list \<Rightarrow> string list \<times> warning list" where
  "plan_merge_keys id_col raw_cols coded_cols =
     (if has_id id_col raw_cols \<and> has_id id_col coded_cols
      then ([''_id_key'', ''_construct_canon''], [])
      else ([''_construct_canon''], [IdMissingFallback id_col]))"

text \<open>\<open>pd.merge(left, right, on=keys, how="left")\<close>, the right table being the key and one
  value column: the left rows in their order, each once for every right row with its key, in
  the right table's order, and once with the missing value when there is none. Keys compare
  by equality, and pandas joins a missing key with a missing key.\<close>

definition matches :: "'k \<Rightarrow> ('k \<times> 'v) list \<Rightarrow> 'v list" where
  "matches k right = map snd (filter (\<lambda>kv. fst kv = k) right)"

definition left_merge :: "('r \<Rightarrow> 'k) \<Rightarrow> 'v \<Rightarrow> 'r list \<Rightarrow> ('k \<times> 'v) list \<Rightarrow> ('r \<times> 'v) list" where
  "left_merge key missing left right =
     concat (map (\<lambda>r. case matches (key r) right of
                         [] \<Rightarrow> [(r, missing)]
                       | v # vs \<Rightarrow> map (\<lambda>w. (r, w)) (v # vs)) left)"

text \<open>A row of the raw table before the merge: its \<open>_id_key\<close> (when the table has the
  identifier column), its \<open>_construct_canon\<close>, and the cells of its other columns. A row of
  the long coded table: the same two keys and \<open>human_label\<close>. An \<open>_id_key\<close> is what
  \<open>make_id_key\<close> leaves: a string, or NaN for a missing identifier.\<close>

record raw_row =
  raw_id_key :: pyval
  raw_construct_canon :: string
  raw_cells :: "pyval list"

record coded_row =
  coded_id_key :: pyval
  coded_construct_canon :: string
  human_label :: pyfloat

text \<open>The value of the merge keys in a row: the identifier key counts only when
  \<open>_id_key\<close> is among the merge keys.\<close>

definition key_value :: "string list \<Rightarrow> pyval \<Rightarrow> string \<Rightarrow> pyval option \<times> string" where
  "key_value merge_keys idk canon =
     (if ''_id_key'' \<in> set merge_keys then Some idk else None, canon)"

text \<open>Before it joins, \<open>pd.merge\<close> compares the dtypes of each pair of key columns, unless
  exactly one of the two tables has no row. An \<open>_id_key\<close> column is of dtype \<open>float64\<close> when
  all its entries are missing and of dtype \<open>object\<close> when it holds a string, and a column of
  strings does not merge with a column of floats:
  \<open>ValueError: You are trying to merge on object and float64 columns\<close>. The columns
  \<open>_construct_canon\<close> hold strings on both sides.\<close>

definition id_dtypes_clash :: "string list \<Rightarrow> raw_row list \<Rightarrow> coded_row list \<Rightarrow> bool" where
  "id_dtypes_clash merge_keys raw coded =
     (''_id_key'' \<in> set merge_keys \<and> raw \<noteq> [] \<and> coded \<noteq> []
      \<and> list_all isna (map raw_id_key raw) \<noteq> list_all isna (map coded_id_key coded))"

text \<open>The merge of \<open>main\<close>:
  \<open>pd.merge(raw_df, coded_long[merge_keys + ["human_label"]], on=merge_keys, how="left")\<close>.\<close>

definition merge_tables ::
  "string list \<Rightarrow> raw_row list \<Rightarrow> coded_row list \<Rightarrow> pyerror + (raw_row \<times> pyfloat) list" where
  "merge_tables merge_keys raw coded =
     (if id_dtypes_clash merge_keys raw coded then Inl ValueError
      else Inr (left_merge (\<lambda>r. key_value merge_keys (raw_id_key r) (raw_construct_canon r)) NaN raw
        (map (\<lambda>c. (key_value merge_keys (coded_id_key c) (coded_construct_canon c), human_label c))
           coded)))"

section \<open>Scoring engine\<close>

text \<open>A row of the merged table, as far as the scoring reads it: the construct as the raw
  table has it, \<open>human_label\<close> (NaN when missing) and \<open>gpt_pred\<close>.\<close>

record merged_row =
  m_construct :: string
  m_human_label :: pyfloat
  m_gpt_pred :: int

text \<open>\<open>Series.astype(int)\<close> for a float column: a value that is not finite raises
  (\<open>IntCastingNaNError\<close>, a \<open>ValueError\<close>); a finite one goes through the cast of numpy to
  \<open>int64\<close>, which truncates towards zero. For a value outside \<open>int64\<close> the C conversion is
  undefined; the x86-64 instruction delivers \<open>-2^63\<close>, which is what the model returns.\<close>

definition astype_int :: "pyfloat \<Rightarrow> pyerror + int" where
  "astype_int f =
     (case f of
        Fin q \<Rightarrow>
          (let t = (if 0 \<le> q then \<lfloor>q\<rfloor> else \<lceil>q\<rceil>)
           in Inr (if - (2 ^ 63) \<le> t \<and> t < 2 ^ 63 then t else - (2 ^ 63)))
      | _ \<Rightarrow> Inl ValueError)"

text \<open>The results of a list of steps, or the first error.\<close>

fun sequence :: "('e + 'a) list \<Rightarrow> 'e + 'a list" where
  "sequence [] = Inr []"
| "sequence (x # xs) =
     (case x of
        Inl e \<Rightarrow> Inl e
      | Inr a \<Rightarrow> (case sequence xs of Inl e \<Rightarrow> Inl e | Inr as \<Rightarrow> Inr (a # as)))"

subsection \<open>Arithmetic of doubles in numpy\<close>

text \<open>The operations of numpy on doubles: the exact result rounded to a double. They raise
  nothing: a division by zero gives an infinity or NaN (with a warning). The model has one
  zero; the sign of a zero plays no part below, where every operand comes from a count.\<close>

definition float_of_int :: "int \<Rightarrow> pyfloat" where
  "float_of_int i = to_double (of_int i)"

fun float_neg :: "pyfloat \<Rightarrow> pyfloat" where
  "float_neg (Fin a) = Fin (- a)"
| "float_neg PosInf = NegInf"
| "float_neg NegInf = PosInf"
| "float_neg NaN = NaN"

fun float_add :: "pyfloat \<Rightarrow> pyfloat \<Rightarrow> pyfloat" where
  "float_add (Fin a) (Fin b) = to_double (a + b)"
| "float_add NaN _ = NaN"
| "float_add _ NaN = NaN"
| "float_add PosInf NegInf = NaN"
| "float_add NegInf PosInf = NaN"
| "float_add PosInf _ = PosInf"
| "float_add NegInf _ = NegInf"
| "float_add _ PosInf = PosInf"
| "float_add _ NegInf = NegInf"

definition float_sub :: "pyfloat \<Rightarrow> pyfloat \<Rightarrow> pyfloat" where
  "float_sub x y = float_add x (float_neg y)"

fun float_mul :: "pyfloat \<Rightarrow> pyfloat \<Rightarrow> pyfloat" where
  "float_mul (Fin a) (Fin b) = to_double (a * b)"
| "float_mul NaN _ = NaN"
| "float_mul _ NaN = NaN"
| "float_mul (Fin a) y = (if a = 0 then NaN else if 0 < a then y else float_neg y)"
| "float_mul x (Fin b) = (if b = 0 then NaN else if 0 < b then x else float_neg x)"
| "float_mul x y = (if x = y then PosInf else NegInf)"

fun float_div :: "pyfloat \<Rightarrow> pyfloat \<Rightarrow> pyfloat" where
  "float_div (Fin a) (Fin b) =
     (if b = 0 then (if a = 0 then NaN else if 0 < a then PosInf else NegInf)
      else to_double (a / b))"
| "float_div NaN _ = NaN"
| "float_div _ NaN = NaN"
| "float_div (Fin a) _ = Fin 0"
| "float_div x (Fin b) = (if 0 \<le> b then x else float_neg x)"
| "float_div _ _ = NaN"

text \<open>\<open>np.sum\<close> of a contiguous array of doubles: the reduction starts from the identity
  \<open>0\<close> and adds the pairwise sum of the whole array. The pairwise sum adds fewer than 8
  entries one after the other; up to 128 entries go through eight running sums, which take
  the entries in turn, are added as \<open>((r0 + r1) + (r2 + r3)) + ((r4 + r5) + (r6 + r7))\<close>
  and then receive the entries left over; a longer array is split in two parts, the first of
  a length that is a multiple of 8.\<close>

function pairwise_sum :: "pyfloat list \<Rightarrow> pyfloat" where
  "pairwise_sum a =
     (if length a < 8 then foldl float_add (Fin 0) a
      else if length a \<le> 128 then
        (let m = length a - length a mod 8;
             r = foldl (\<lambda>r i. map (\<lambda>j. float_add (r ! j) (a ! (i + j))) [0..<8])
                   (take 8 a) (map (\<lambda>k. 8 * k) [1..<m div 8]);
             res = float_add (float_add (float_add (r ! 0) (r ! 1)) (float_add (r ! 2) (r ! 3)))
                     (float_add (float_add (r ! 4) (r ! 5)) (float_add (r ! 6) (r ! 7)))
         in foldl float_add res (drop m a))
      else
        (let n2 = length a div 2 - (length a div 2) mod 8
         in float_add (pairwise_sum (take n2 a)) (pairwise_sum (drop n2 a))))"
  by pat_completeness auto
termination
  by (relation "measure length") auto

declare pairwise_sum.simps [simp del]

definition np_sum :: "pyfloat list \<Rightarrow> pyfloat" where
  "np_sum a = float_add (Fin 0) (pairwise_sum a)"

subsection \<open>The metrics of scikit-learn\<close>

text \<open>The labels present in either vector, sorted: \<open>unique_labels(y1, y2)\<close>.\<close>

definition unique_labels :: "int list \<Rightarrow> int list \<Rightarrow> int list" where
  "unique_labels y1 y2 = sort (remdups (y1 @ y2))"

text \<open>An entry of \<open>confusion_matrix(y1, y2)\<close>: the number of positions with \<open>a\<close> in the first
  vector and \<open>b\<close> in the second.\<close>

definition confusion :: "int list \<Rightarrow> int list \<Rightarrow> int \<Rightarrow> int \<Rightarrow> nat" where
  "confusion y1 y2 a b = length (filter (\<lambda>tp. fst tp = a \<and> snd tp = b) (zip y1 y2))"

text \<open>\<open>cohen_kappa_score(y1, y2)\<close>, unweighted. With the matrices over the sorted labels, in
  row-major order, \<open>sum0\<close> the column sums and \<open>sum1\<close> the row sums of the confusion matrix,
  \<open>expected = np.outer(sum0, sum1) / np.sum(sum0)\<close> is a matrix of doubles, \<open>w_mat\<close> is the
  integer matrix with zero on the diagonal and one elsewhere,
  \<open>k = np.sum(w_mat * confusion) / np.sum(w_mat * expected)\<close>, and the result is \<open>1 - k\<close>.
  The division is numpy's: \<open>0 / 0\<close> is NaN and raises nothing (it warns). Vectors of
  different lengths raise \<open>ValueError\<close>.\<close>

definition cohen_kappa_score :: "int list \<Rightarrow> int list \<Rightarrow> pyerror + pyfloat" where
  "cohen_kappa_score y1 y2 =
     (if length y1 \<noteq> length y2 then Inl ValueError
      else
        (let ls = unique_labels y1 y2;
             cells = List.product ls ls;
             w_mat = (\<lambda>ab. if fst ab = snd ab then 0 else 1 :: int);
             expected = (\<lambda>ab. float_div
                                 (float_of_int (int (count_list y2 (fst ab) * count_list y1 (snd ab))))
                                 (float_of_int (int (length y1))));
             num = sum_list (map (\<lambda>ab. w_mat ab * int (confusion y1 y2 (fst ab) (snd ab))) cells);
             den = np_sum (map (\<lambda>ab. float_mul (float_of_int (w_mat ab)) (expected ab)) cells);
             k = float_div (float_of_int num) den
         in Inr (float_sub (Fin 1) k)))"

text \<open>\<open>average="binary"\<close> with \<open>pos_label=1\<close>: more than two labels are a multiclass target and
  raise; so do two labels without the label 1.\<close>

definition binary_check :: "int list \<Rightarrow> int list \<Rightarrow> pyerror + unit" where
  "binary_check y_true y_pred =
     (let ls = unique_labels y_true y_pred in
      if 2 < length ls then Inl ValueError
      else if length ls = 2 \<and> 1 \<notin> set ls then Inl ValueError
      else Inr ())"

text \<open>\<open>precision_score(y_true, y_pred, zero_division=0)\<close> and
  \<open>recall_score(y_true, y_pred, zero_division=0)\<close>: the quotient of two counts, divided as
  doubles, and \<open>0.0\<close> where the denominator is zero.\<close>

definition precision_score :: "int list \<Rightarrow> int list \<Rightarrow> pyerror + pyfloat" where
  "precision_score y_true y_pred =
     (case binary_check y_true y_pred of
        Inl e \<Rightarrow> Inl e
      | Inr _ \<Rightarrow>
          (let tp = confusion y_true y_pred 1 1; pp = count_list y_pred 1
           in Inr (if pp = 0 then Fin 0
                   else float_div (float_of_int (int tp)) (float_of_int (int pp)))))"

definition recall_score :: "int list \<Rightarrow> int list \<Rightarrow> pyerror + pyfloat" where
  "recall_score y_true y_pred =
     (case binary_check y_true y_pred of
        Inl e \<Rightarrow> Inl e
      | Inr _ \<Rightarrow>
          (let tp = confusion y_true y_pred 1 1; ap = count_list y_true 1
           in Inr (if ap = 0 then Fin 0
                   else float_div (float_of_int (int tp)) (float_of_int (int ap)))))"

subsection \<open>Step 10 of \<open>main\<close>\<close>

text \<open>The rows with a human label: \<open>~pd.isna(g["human_label"])\<close>.\<close>

definition evaluable :: "merged_row list \<Rightarrow> merged_row list" where
  "evaluable g = filter (\<lambda>r. m_human_label r \<noteq> NaN) g"

text \<open>\<open>overall_kappa\<close>: \<open>None\<close> when no row has a human label.\<close>

definition overall_kappa :: "merged_row list \<Rightarrow> pyerror + pyfloat option" where
  "overall_kappa merged =
     (let ev = evaluable merged in
      if length ev = 0 then Inr None
      else
        (case sequence (map (\<lambda>r. astype_int (m_human_label r)) ev) of
           Inl e \<Rightarrow> Inl e
         | Inr y_true_all \<Rightarrow>
             (case cohen_kappa_score y_true_all (map m_gpt_pred ev) of
                Inl e \<Rightarrow> Inl e
              | Inr k \<Rightarrow> Inr (Some k))))"

text \<open>A record of the per-construct table; \<open>None\<close> is Python's \<open>None\<close>.\<close>

record metrics_row =
  construct :: string
  freq_in_data :: "pyfloat option"
  hum_gpt_kappa :: "pyfloat option"
  hum_gpt_precision :: "pyfloat option"
  hum_gpt_recall :: "pyfloat option"
  n_eval :: nat

text \<open>The body of the loop over \<open>merged.groupby(args.construct_col)\<close>, for the group \<open>g\<close> of
  the construct \<open>c\<close>. Only the kappa stands in a \<open>try\<close>. The frequency is the mean of the
  Boolean vector \<open>y_true == 1\<close>: its sum as a double, divided by the number of entries.\<close>

definition score_group :: "string \<Rightarrow> merged_row list \<Rightarrow> pyerror + metrics_row" where
  "score_group c g =
     (let ev = evaluable g; n = length ev in
      if n = 0 then
        Inr \<lparr>construct = c, freq_in_data = None, hum_gpt_kappa = None,
             hum_gpt_precision = None, hum_gpt_recall = None, n_eval = 0\<rparr>
      else
        (case sequence (map (\<lambda>r. astype_int (m_human_label r)) ev) of
           Inl e \<Rightarrow> Inl e
         | Inr y_true \<Rightarrow>
             (let y_pred = map m_gpt_pred ev;
                  freq = float_div (float_of_int (int (count_list y_true 1))) (float_of_int (int n));
                  kappa_c = (case cohen_kappa_score y_true y_pred of
                               Inl _ \<Rightarrow> None
                             | Inr k \<Rightarrow> Some k)
              in case precision_score y_true y_pred of
                   Inl e \<Rightarrow> Inl e
                 | Inr prec \<Rightarrow>
                     (case recall_score y_true y_pred of
                        Inl e \<Rightarrow> Inl e
                      | Inr rec \<Rightarrow>
                          Inr \<lparr>construct = c, freq_in_data = Some freq,
                               hum_gpt_kappa = kappa_c,
                               hum_gpt_precision = Some prec,
                               hum_gpt_recall = Some rec, n_eval = n\<rparr>))))"

text \<open>The per-construct table: one record for every construct of the merged table, sorted by
  construct.\<close>

definition per_construct :: "merged_row list \<Rightarrow> pyerror + metrics_row list" where
  "per_construct merged =
     sequence (map (\<lambda>c. score_group c (filter (\<lambda>r. m_construct r = c) merged))
                 (sort (remdups (map m_construct merged))))"

section \<open>Tables\<close>

text \<open>A pandas \<open>DataFrame\<close>: its columns in order, each with its name, its dtype as far as the
  code asks for it (\<open>object\<close>, a numeric dtype, or another one such as \<open>bool\<close> or a date) and its
  cells. The columns of a table have the same number of cells, and distinct names.\<close>

datatype dtype = Object | Number | OtherDtype

record column =
  col_name :: string
  col_dtype :: dtype
  col_cells :: "pyval list"

type_synonym frame = "column list"

definition columns :: "frame \<Rightarrow> string list" where
  "columns df = map col_name df"



text \<open>\<open>df[name]\<close>: the column, or \<open>KeyError\<close>.\<close>

definition get_col :: "frame \<Rightarrow> string \<Rightarrow> pyerror + column" where
  "get_col df name = (case find (\<lambda>c. col_name c = name) df of None \<Rightarrow> Inl KeyError | Some c \<Rightarrow> Inr c)"

text \<open>\<open>df.rename(columns={old: new})\<close>: a name that is no column is ignored.\<close>

definition rename :: "string \<Rightarrow> string \<Rightarrow> frame \<Rightarrow> frame" where
  "rename old new df = map (\<lambda>c. if col_name c = old then c\<lparr>col_name := new\<rparr> else c) df"

section \<open>Rendering utility: \<open>pretty_format\<close>\<close>

text \<open>Arithmetic of doubles with a constant: the exact result rounded to a double; NaN and the
  infinities stay (the constants are positive).\<close>

definition fmul :: "pyfloat \<Rightarrow> rat \<Rightarrow> pyfloat" where
  "fmul f c = (case f of Fin q \<Rightarrow> to_double (q * c) | _ \<Rightarrow> f)"

definition fdiv :: "pyfloat \<Rightarrow> rat \<Rightarrow> pyfloat" where
  "fdiv f c = (case f of Fin q \<Rightarrow> to_double (q / c) | _ \<Rightarrow> f)"

text \<open>\<open>np.rint\<close>: the nearest integer, a tie to the even one.\<close>

definition rint :: "pyfloat \<Rightarrow> pyfloat" where
  "rint f = (case f of Fin q \<Rightarrow> Fin (of_int (round_half_even q)) | _ \<Rightarrow> f)"

text \<open>\<open>Series.round(d)\<close> for \<open>d = 0\<close> and \<open>d = 2\<close>: numpy scales by \<open>10^d\<close>, rounds, and scales
  back.\<close>

definition round0 :: "pyfloat \<Rightarrow> pyfloat" where
  "round0 f = rint f"

definition round2 :: "pyfloat \<Rightarrow> pyfloat" where
  "round2 f = fdiv (rint (fmul f 100)) 100"

text \<open>\<open>Series.astype(float)\<close>, cell by cell: \<open>None\<close> becomes NaN, a string goes through
  \<open>float()\<close>.\<close>

definition astype_float :: "pyval \<Rightarrow> pyerror + pyfloat" where
  "astype_float v = (case v of PyNone \<Rightarrow> Inr NaN | _ \<Rightarrow> py_float v)"

text \<open>A cell of \<open>freq_in_data\<close>:
  \<open>(x.astype(float) * 100).round(0).astype(int).astype(str) + "%"\<close>. The cast to \<open>int\<close> raises
  on NaN and on the infinities.\<close>

definition freq_cell :: "pyval \<Rightarrow> pyerror + pyval" where
  "freq_cell v =
     (case astype_float v of
        Inl e \<Rightarrow> Inl e
      | Inr f \<Rightarrow>
          (case astype_int (round0 (fmul f 100)) of
             Inl e \<Rightarrow> Inl e
           | Inr i \<Rightarrow> Inr (PyStr (str_int i @ ''%''))))"

text \<open>A cell of the three other metric columns: \<open>x.astype(float).round(2)\<close>.\<close>

definition metric_cell :: "pyval \<Rightarrow> pyerror + pyval" where
  "metric_cell v = (case astype_float v of Inl e \<Rightarrow> Inl e | Inr f \<Rightarrow> Inr (PyFloat (round2 f)))"

text \<open>\<open>if name in df.columns: df[name] = f(df[name])\<close>, with the dtype of the result.\<close>

definition update_col :: "string \<Rightarrow> (pyval \<Rightarrow> pyerror + pyval) \<Rightarrow> dtype \<Rightarrow> frame \<Rightarrow> pyerror + frame" where
  "update_col name f dt df =
     sequence (map (\<lambda>c. if col_name c = name
                         then (case sequence (map f (col_cells c)) of
                                 Inl e \<Rightarrow> Inl e
                               | Inr cells \<Rightarrow> Inr (c\<lparr>col_dtype := dt, col_cells := cells\<rparr>))
                         else Inr c) df)"

text \<open>\<open>pretty_format(df)\<close> of \<open>table_convert.py\<close>.\<close>

definition pretty_format :: "frame \<Rightarrow> pyerror + frame" where
  "pretty_format df0 =
     (case update_col ''freq_in_data'' freq_cell Object df0 of
        Inl e \<Rightarrow> Inl e
      | Inr df1 \<Rightarrow>
     (case update_col ''hum_gpt_kappa'' metric_cell Number df1 of
        Inl e \<Rightarrow> Inl e
      | Inr df2 \<Rightarrow>
     (case update_col ''hum_gpt_precision'' metric_cell Number df2 of
        Inl e \<Rightarrow> Inl e
      | Inr df3 \<Rightarrow>
     (case update_col ''hum_gpt_recall'' metric_cell Number df3 of
        Inl e \<Rightarrow> Inl e
      | Inr df4 \<Rightarrow>
          (let df5 = filter (\<lambda>c. col_name c \<noteq> ''n_eval'') df4;
               col_order = filter (\<lambda>n. n \<in> set (columns df5))
                 [''construct'', ''freq_in_data'', ''hum_gpt_kappa'',
                  ''hum_gpt_precision'', ''hum_gpt_recall'']
           in if col_order = [] then Inr df5
              else sequence (map (get_col df5) col_order))))))"

text \<open>The per-construct document as the utility loads it: a column for every key of the
  records, \<open>None\<close> as the missing value; no record gives a table without columns.\<close>

definition opt_cell :: "pyfloat option \<Rightarrow> pyval" where
  "opt_cell v = (case v of None \<Rightarrow> PyNone | Some f \<Rightarrow> PyFloat f)"

definition load_to_df :: "metrics_row list \<Rightarrow> frame" where
  "load_to_df records =
     (if records = [] then []
      else
        [\<lparr>col_name = ''construct'', col_dtype = Object, col_cells = map (\<lambda>m. PyStr (construct m)) records\<rparr>,
         \<lparr>col_name = ''freq_in_data'', col_dtype = Number, col_cells = map (\<lambda>m. opt_cell (freq_in_data m)) records\<rparr>,
         \<lparr>col_name = ''hum_gpt_kappa'', col_dtype = Number, col_cells = map (\<lambda>m. opt_cell (hum_gpt_kappa m)) records\<rparr>,
         \<lparr>col_name = ''hum_gpt_precision'', col_dtype = Number, col_cells = map (\<lambda>m. opt_cell (hum_gpt_precision m)) records\<rparr>,
         \<lparr>col_name = ''hum_gpt_recall'', col_dtype = Number, col_cells = map (\<lambda>m. opt_cell (hum_gpt_recall m)) records\<rparr>,
         \<lparr>col_name = ''n_eval'', col_dtype = Number, col_cells = map (\<lambda>m. PyInt (int (n_eval m))) records\<rparr>])"

section \<open>Reshaper\<close>






section \<open>Approximate string matching (\<open>difflib\<close>)\<close>

text \<open>The length of the longest common prefix.\<close>

fun common_prefix :: "'a list \<Rightarrow> 'a list \<Rightarrow> nat" where
  "common_prefix (x # xs) (y # ys) = (if x = y then Suc (common_prefix xs ys) else 0)"
| "common_prefix _ _ = 0"

text \<open>\<open>SequenceMatcher.find_longest_match\<close> over the whole of both sequences, without junk
  (\<open>isjunk\<close> is \<open>None\<close>, and the automatic junk heuristic needs a second sequence of 200
  elements): the start in \<open>a\<close>, the start in \<open>b\<close> and the length of the longest common block;
  of the longest blocks the one that starts earliest in \<open>a\<close>, and of those the one that starts
  earliest in \<open>b\<close>; \<open>(0, 0, 0)\<close> when nothing matches.\<close>

definition better :: "'a list \<Rightarrow> 'a list \<Rightarrow> nat \<times> nat \<times> nat \<Rightarrow> nat \<times> nat \<Rightarrow> nat \<times> nat \<times> nat" where
  "better a b best ij =
     (let k = common_prefix (drop (fst ij) a) (drop (snd ij) b)
      in if snd (snd best) < k then (fst ij, snd ij, k) else best)"

definition find_longest_match :: "'a list \<Rightarrow> 'a list \<Rightarrow> nat \<times> nat \<times> nat" where
  "find_longest_match a b =
     foldl (better a b) (0, 0, 0) (List.product [0..<length a] [0..<length b])"

lemma common_prefix_le: "common_prefix xs ys \<le> length xs"
  by (induction xs ys rule: common_prefix.induct) auto

lemma better_bound:
  "fst best + snd (snd best) \<le> length a \<Longrightarrow>
     fst (better a b best ij) + snd (snd (better a b best ij)) \<le> length a"
  using common_prefix_le [of "drop (fst ij) a" "drop (snd ij) b"]
  by (auto simp: better_def Let_def)

lemma foldl_better_bound:
  "fst best + snd (snd best) \<le> length a \<Longrightarrow>
     fst (foldl (better a b) best ps) + snd (snd (foldl (better a b) best ps)) \<le> length a"
  by (induction ps arbitrary: best) (simp_all add: better_bound)

lemma find_longest_match_bound:
  "fst (find_longest_match a b) + snd (snd (find_longest_match a b)) \<le> length a"
  unfolding find_longest_match_def by (rule foldl_better_bound) simp

text \<open>The number of matching elements, the sum of the sizes of
  \<open>SequenceMatcher.get_matching_blocks\<close>: the longest block, and the same to its left and to
  its right.\<close>

function matching :: "'a list \<Rightarrow> 'a list \<Rightarrow> nat" where
  "matching a b =
     (let m = find_longest_match a b; i = fst m; j = fst (snd m); k = snd (snd m)
      in if k = 0 then 0
         else k + matching (take i a) (take j b) + matching (drop (i + k) a) (drop (j + k) b))"
  by pat_completeness auto
termination
proof (relation "measure (\<lambda>ab. length (fst ab))")
  show "wf (measure (\<lambda>ab. length (fst ab)))" by simp
next
  fix a b :: "'a list" and m i j k
  assume "m = find_longest_match a b" "i = fst m" "k = snd (snd m)" "k \<noteq> 0"
  then have "i + k \<le> length a" "0 < k"
    using find_longest_match_bound [of a b] by auto
  then show "((take i a, take j b), a, b) \<in> measure (\<lambda>ab. length (fst ab))" by simp
next
  fix a b :: "'a list" and m i j k
  assume "m = find_longest_match a b" "i = fst m" "k = snd (snd m)" "k \<noteq> 0"
  then have "i + k \<le> length a" "0 < k"
    using find_longest_match_bound [of a b] by auto
  then show "((drop (i + k) a, drop (j + k) b), a, b) \<in> measure (\<lambda>ab. length (fst ab))" by simp
qed

declare matching.simps [simp del]

text \<open>\<open>SequenceMatcher(None, a, b).ratio()\<close>: twice the matches over the total length, and 1
  for two empty sequences. The quotient is exact here; it is compared with a cutoff of two
  decimals, which its double decides the same way.\<close>

definition ratio :: "'a list \<Rightarrow> 'a list \<Rightarrow> rat" where
  "ratio a b =
     (let t = length a + length b
      in if t = 0 then 1 else 2 * of_nat (matching a b) / of_nat t)"

text \<open>\<open>difflib.get_close_matches(word, possibilities, n=1, cutoff)\<close>: of the possibilities
  that score at least the cutoff against the word, the one with the greatest pair of score
  and string; \<open>None\<close> is the empty list. The quick upper bounds of the library remove only
  what the ratio removes.\<close>

definition get_close_matches :: "string \<Rightarrow> string list \<Rightarrow> rat \<Rightarrow> string option" where
  "get_close_matches word possibilities cutoff =
     (case filter (\<lambda>rx. cutoff \<le> fst rx) (map (\<lambda>x. (ratio x word, x)) possibilities) of
        [] \<Rightarrow> None
      | r # rs \<Rightarrow>
          Some (snd (foldl (\<lambda>best y. if fst best < fst y \<or> (fst best = fst y \<and> snd best < snd y)
                                      then y else best) r rs)))"

section \<open>Column coercer\<close>

text \<open>\<open>avg_len\<close>: the mean length of the text of the cells that are not missing; the mean of
  no cell is NaN.\<close>

definition avg_len :: "(pyfloat \<Rightarrow> string) \<Rightarrow> column \<Rightarrow> pyfloat" where
  "avg_len frepr c =
     (let vs = filter (\<lambda>v. \<not> isna v) (col_cells c)
      in if vs = [] then NaN
         else to_double (of_nat (sum_list (map (\<lambda>v. length (py_str frepr v)) vs))
                          / of_nat (length vs)))"

text \<open>\<open>x > y\<close> on floats: false when either is NaN.\<close>

definition float_gt :: "pyfloat \<Rightarrow> pyfloat \<Rightarrow> bool" where
  "float_gt x y =
     (case (x, y) of
        (NaN, _) \<Rightarrow> False
      | (_, NaN) \<Rightarrow> False
      | (Fin p, Fin q) \<Rightarrow> q < p
      | (PosInf, PosInf) \<Rightarrow> False
      | (PosInf, _) \<Rightarrow> True
      | (_, NegInf) \<Rightarrow> x \<noteq> NegInf
      | _ \<Rightarrow> False)"

text \<open>\<open>max(xs, key=f)\<close> for a list that is not empty: the first element that no later one
  exceeds.\<close>

definition py_max :: "('a \<Rightarrow> pyfloat) \<Rightarrow> 'a \<Rightarrow> 'a list \<Rightarrow> 'a" where
  "py_max f x xs = foldl (\<lambda>best y. if float_gt (f y) (f best) then y else best) x xs"

text \<open>\<open>df.columns = names\<close>.\<close>

definition set_columns :: "string list \<Rightarrow> frame \<Rightarrow> frame" where
  "set_columns names df = map (\<lambda>nc. (snd nc)\<lparr>col_name := fst nc\<rparr>) (zip names df)"

text \<open>The step \<open>Ensure TEXT present\<close>. \<open>cols\<close> is the list of the column names taken at the
  start of the function; \<open>cols[-1]\<close> raises when it is empty.\<close>

definition ensure_text :: "(pyfloat \<Rightarrow> string) \<Rightarrow> frame \<Rightarrow> string \<Rightarrow> pyerror + frame" where
  "ensure_text frepr df text_col =
     (if text_col \<in> set (columns df) then Inr df
      else
        (case filter (\<lambda>c. col_dtype c = Object) df of
           o1 # os \<Rightarrow> Inr (rename (col_name (py_max (avg_len frepr) o1 os)) text_col df)
         | [] \<Rightarrow> (if df = [] then Inl IndexError
                  else Inr (rename (last (columns df)) text_col df))))"

text \<open>The step for the construct column: a close name among \<open>cols\<close> is adopted.\<close>

definition ensure_construct :: "string list \<Rightarrow> string \<Rightarrow> frame \<Rightarrow> frame" where
  "ensure_construct cols construct_col df =
     (if construct_col \<in> set (columns df) then df
      else
        (case get_close_matches construct_col cols (8 / 10) of
           Some m \<Rightarrow> rename m construct_col df
         | None \<Rightarrow> df))"

text \<open>The step \<open>Ensure ID if requested\<close>. It reads \<open>df[c].dtype\<close> for every name in \<open>cols\<close>,
  the names from before the renamings: a name that was renamed raises \<open>KeyError\<close>.\<close>

definition ensure_id :: "string list \<Rightarrow> string option \<Rightarrow> frame \<Rightarrow> pyerror + frame" where
  "ensure_id cols id_col df =
     (case id_col of
        None \<Rightarrow> Inr df
      | Some i \<Rightarrow>
          if i = [] \<or> i \<in> set (columns df) then Inr df
          else
            (case sequence (map (get_col df) cols) of
               Inl e \<Rightarrow> Inl e
             | Inr cs \<Rightarrow>
                 (case filter (\<lambda>c. col_dtype c = Number) cs of
                    n1 # ns \<Rightarrow> Inr (rename (col_name n1) i df)
                  | [] \<Rightarrow> (case cols of
                             [] \<Rightarrow> Inl IndexError
                           | c0 # _ \<Rightarrow> Inr (rename c0 i df)))))"

text \<open>\<open>coerce_raw_columns(df, id_col, text_col, construct_col)\<close>.\<close>

definition coerce_raw_columns ::
    "(pyfloat \<Rightarrow> string) \<Rightarrow> frame \<Rightarrow> string option \<Rightarrow> string \<Rightarrow> string \<Rightarrow> pyerror + frame" where
  "coerce_raw_columns frepr df id_col text_col construct_col =
     (let cols = columns df in
      case (if length cols = 2 \<and> text_col \<notin> set cols then id_col else None) of
        Some i \<Rightarrow> Inr (set_columns [i, text_col] df)
      | None \<Rightarrow>
          (case ensure_text frepr df text_col of
             Inl e \<Rightarrow> Inl e
           | Inr df1 \<Rightarrow> ensure_id cols id_col (ensure_construct cols construct_col df1)))"

text \<open>Step 2 of \<open>main\<close>: the coercion, then the check that the text column is there.\<close>

definition coerce_step ::
    "(pyfloat \<Rightarrow> string) \<Rightarrow> frame \<Rightarrow> string option \<Rightarrow> string \<Rightarrow> string \<Rightarrow> pyerror + frame" where
  "coerce_step frepr raw_df id_col text_col construct_col =
     (case coerce_raw_columns frepr raw_df id_col text_col construct_col of
        Inl e \<Rightarrow> Inl e
      | Inr df \<Rightarrow> if text_col \<in> set (columns df) then Inr df else Inl KeyError)"

chapter \<open>Properties\<close>

section \<open>Properties of the canonicalizer\<close>

lemma canonical_None: "canonical None = []"
  by (simp add: canonical_def)

lemma canonical_variable_type_change:
  "canonical (Some ''Variable-type Change'') = canonical (Some ''variable type change'')"
  by code_simp

text \<open>
  Claim C2: \<open>canonical\<close> is idempotent, \<open>canonical(canonical(x)) == canonical(x)\<close> for every
  string \<open>x\<close>. The code collapses white space before it removes the punctuation, so a
  punctuation mark between two spaces leaves a double space in the result, which a second
  pass collapses: at \<open>"a . b"\<close> the first pass returns \<open>"a  b"\<close> (two spaces), the second
  \<open>"a b"\<close>.
\<close>

theorem canonical_twice_differs:
  "canonical (Some ''a . b'') = ''a  b'' \<and>
   canonical (Some (canonical (Some ''a . b''))) = ''a b''"
  by code_simp

section \<open>Properties of the answer parser\<close>

lemmas char_class_defs =
  is_word_def is_bit_def is_digit_def is_upper_AZ_def is_lower_az_def is_space_def code_def
  boundary_before_def boundary_after_def

text \<open>Position \<open>i\<close> of the text holds a standalone digit: a \<open>0\<close> or \<open>1\<close> whose neighbours, where
  there are any, are not word characters. \<open>standalone_from prev\<close> takes the character before
  the text as well.\<close>

definition standalone_from :: "char option \<Rightarrow> string \<Rightarrow> nat \<Rightarrow> bool" where
  "standalone_from prev rsp i =
     (i < length rsp \<and> is_bit (rsp ! i)
      \<and> (if i = 0 then boundary_before prev else \<not> is_word (rsp ! (i - 1)))
      \<and> (if Suc i = length rsp then True else \<not> is_word (rsp ! Suc i)))"

definition standalone_at :: "string \<Rightarrow> nat \<Rightarrow> bool" where
  "standalone_at rsp i = standalone_from None rsp i"

text \<open>Position \<open>n\<close> holds a leading digit: only white space stands before it.\<close>

definition leading_at :: "string \<Rightarrow> nat \<Rightarrow> bool" where
  "leading_at rsp n = (n < length rsp \<and> list_all is_space (take n rsp) \<and> is_bit (rsp ! n))"

lemma standalone_from_0:
  "standalone_from prev (c # cs) 0 = (is_bit c \<and> boundary_before prev \<and> boundary_after cs)"
  by (cases cs) (auto simp: standalone_from_def boundary_after_def)

lemma standalone_from_Suc:
  "standalone_from prev (c # cs) (Suc i) = standalone_from (Some c) cs i"
  by (cases i) (auto simp: standalone_from_def boundary_before_def)

lemma search_standalone_None:
  "(search_standalone prev rsp = None) = (\<forall>i. \<not> standalone_from prev rsp i)"
proof (induction rsp arbitrary: prev)
  case Nil
  show ?case by (simp add: standalone_from_def)
next
  case (Cons c cs)
  show ?case
  proof (cases "is_bit c \<and> boundary_before prev \<and> boundary_after cs")
    case True
    then have "standalone_from prev (c # cs) 0" by (simp add: standalone_from_0)
    with True show ?thesis by auto
  next
    case False
    then have no0: "\<not> standalone_from prev (c # cs) 0" by (simp add: standalone_from_0)
    have "(\<forall>i. \<not> standalone_from prev (c # cs) i) = (\<forall>i. \<not> standalone_from (Some c) cs i)"
    proof
      assume a: "\<forall>i. \<not> standalone_from prev (c # cs) i"
      show "\<forall>i. \<not> standalone_from (Some c) cs i"
        using a standalone_from_Suc by blast
    next
      assume a: "\<forall>i. \<not> standalone_from (Some c) cs i"
      show "\<forall>i. \<not> standalone_from prev (c # cs) i"
      proof
        fix i show "\<not> standalone_from prev (c # cs) i"
          using a no0 by (cases i) (simp_all add: standalone_from_Suc)
      qed
    qed
    moreover have "search_standalone prev (c # cs) = search_standalone (Some c) cs"
      by (simp only: search_standalone.simps False if_False)
    ultimately show ?thesis using Cons.IH [of "Some c"] by simp
  qed
qed

lemma search_standalone_Some:
  "search_standalone prev rsp = Some d \<Longrightarrow>
     d = rsp ! (LEAST i. standalone_from prev rsp i)"
proof (induction rsp arbitrary: prev)
  case Nil
  then show ?case by simp
next
  case (Cons c cs)
  show ?case
  proof (cases "is_bit c \<and> boundary_before prev \<and> boundary_after cs")
    case True
    then have "standalone_from prev (c # cs) 0" by (simp add: standalone_from_0)
    then have "(LEAST i. standalone_from prev (c # cs) i) = 0" by (simp add: Least_eq_0)
    with True Cons.prems show ?thesis by simp
  next
    case False
    then have no0: "\<not> standalone_from prev (c # cs) 0" by (simp add: standalone_from_0)
    have "search_standalone prev (c # cs) = search_standalone (Some c) cs"
      by (simp only: search_standalone.simps False if_False)
    with Cons.prems have s: "search_standalone (Some c) cs = Some d" by simp
    then have "\<not> (\<forall>i. \<not> standalone_from (Some c) cs i)"
      using search_standalone_None [of "Some c" cs] by simp
    then obtain k where k: "standalone_from (Some c) cs k" by blast
    then have ex: "standalone_from prev (c # cs) (Suc k)" by (simp add: standalone_from_Suc)
    have "(LEAST i. standalone_from prev (c # cs) i)
        = Suc (LEAST i. standalone_from prev (c # cs) (Suc i))"
      using ex no0 by (rule Least_Suc)
    also have "\<dots> = Suc (LEAST i. standalone_from (Some c) cs i)"
      by (simp add: standalone_from_Suc)
    finally show ?thesis using Cons.IH [OF s] by simp
  qed
qed

lemma search_leading_None:
  "(search_leading rsp = None) = (\<forall>n. \<not> leading_at rsp n)"
proof
  assume a: "search_leading rsp = None"
  show "\<forall>n. \<not> leading_at rsp n"
  proof (rule allI, rule notI)
    fix n assume l: "leading_at rsp n"
    then have n: "n < length rsp" and sp: "list_all is_space (take n rsp)" and b: "is_bit (rsp ! n)"
      by (auto simp: leading_at_def)
    have nb: "\<not> is_space (rsp ! n)" using b by (auto simp: is_bit_def is_space_def code_def)
    have "rsp = take n rsp @ (rsp ! n) # drop (Suc n) rsp"
      using n by (simp add: id_take_nth_drop)
    then have "dropWhile is_space rsp = dropWhile is_space (take n rsp @ (rsp ! n) # drop (Suc n) rsp)"
      by simp
    also have "\<dots> = (rsp ! n) # drop (Suc n) rsp"
      using sp nb by (simp add: dropWhile_append2 list_all_iff)
    finally show False using a b by (simp add: search_leading_def)
  qed
next
  assume a: "\<forall>n. \<not> leading_at rsp n"
  show "search_leading rsp = None"
  proof (cases "dropWhile is_space rsp")
    case Nil
    show ?thesis unfolding search_leading_def Nil by simp
  next
    case (Cons c cs)
    let ?n = "length (takeWhile is_space rsp)"
    have "length (takeWhile is_space rsp @ dropWhile is_space rsp) = length rsp"
      by (simp only: takeWhile_dropWhile_id)
    then have n: "?n < length rsp" using Cons by simp
    have "dropWhile is_space rsp ! 0 = rsp ! (0 + ?n)"
      by (rule dropWhile_nth) (simp add: Cons)
    then have c: "rsp ! ?n = c" using Cons by simp
    have "take ?n rsp = takeWhile is_space rsp"
      by (rule takeWhile_eq_take [symmetric])
    then have "list_all is_space (take ?n rsp)"
      by (auto simp: list_all_iff dest: set_takeWhileD)
    with a n c have "\<not> is_bit c" by (auto simp: leading_at_def)
    with Cons show ?thesis by (simp add: search_leading_def)
  qed
qed

lemma search_leading_Some:
  "search_leading rsp = Some d \<Longrightarrow> d = hd (dropWhile is_space rsp) \<and> is_bit d"
  by (auto simp: search_leading_def split: list.splits if_splits)

lemma int_of_bit_range: "int_of_bit d = 0 \<or> int_of_bit d = 1"
  by (simp add: int_of_bit_def)


lemma leading_at_dropWhile:
  assumes "leading_at rsp n"
  shows "dropWhile is_space rsp = rsp ! n # drop (Suc n) rsp"
proof -
  from assms have n: "n < length rsp" and sp: "list_all is_space (take n rsp)"
    and b: "is_bit (rsp ! n)"
    by (auto simp: leading_at_def)
  have nb: "\<not> is_space (rsp ! n)" using b by (auto simp: is_bit_def is_space_def code_def)
  have "rsp = take n rsp @ (rsp ! n) # drop (Suc n) rsp"
    using n by (simp add: id_take_nth_drop)
  then have "dropWhile is_space rsp
      = dropWhile is_space (take n rsp @ (rsp ! n) # drop (Suc n) rsp)"
    by simp
  also have "\<dots> = (rsp ! n) # drop (Suc n) rsp"
    using sp nb by (simp add: list_all_iff)
  finally show ?thesis .
qed

lemma search_leading_at: "leading_at rsp n \<Longrightarrow> search_leading rsp = Some (rsp ! n)"
  using leading_at_dropWhile [of rsp n] by (simp add: search_leading_def leading_at_def)

text \<open>
  Claim C8: \<open>llm_predict_binary\<close> is total over the oracle's response texts and returns 0 or
  1. When the text holds a standalone digit, it returns the leftmost one (0 for the digit
  \<open>0\<close>, 1 for the digit \<open>1\<close>) and warns of nothing; when it holds none but starts, after
  white space, with a digit, it returns that digit; when it holds neither, it emits the
  diagnostic and returns the default label 0.
\<close>

theorem llm_predict_binary_total:
  "(fst (llm_predict_binary content) = 0 \<or> fst (llm_predict_binary content) = 1)
   \<and> ((\<exists>i. standalone_at (response_text content) i) \<longrightarrow>
        llm_predict_binary content =
          (if response_text content ! (LEAST i. standalone_at (response_text content) i) = CHR ''1''
           then 1 else 0, []))
   \<and> (\<forall>n. (\<forall>i. \<not> standalone_at (response_text content) i) \<and> leading_at (response_text content) n \<longrightarrow>
        llm_predict_binary content = (if response_text content ! n = CHR ''1'' then 1 else 0, []))
   \<and> ((\<forall>i. \<not> standalone_at (response_text content) i) \<and> (\<forall>n. \<not> leading_at (response_text content) n) \<longrightarrow>
        llm_predict_binary content = (0, [CouldNotParseBinary (response_text content)]))
   \<and> (\<forall>i. standalone_at (response_text content) i \<or> leading_at (response_text content) i \<longrightarrow>
        response_text content ! i = CHR ''0'' \<or> response_text content ! i = CHR ''1'')"
proof -
  let ?t = "response_text content"
  have range: "fst (llm_predict_binary content) = 0 \<or> fst (llm_predict_binary content) = 1"
    using int_of_bit_range
    by (auto simp: llm_predict_binary_def Let_def split: option.splits)
  have a: "llm_predict_binary content
      = (if ?t ! (LEAST i. standalone_at ?t i) = CHR ''1'' then 1 else 0, [])"
    if "\<exists>i. standalone_at ?t i"
  proof -
    from that have "search_standalone None ?t \<noteq> None"
      by (simp add: search_standalone_None standalone_at_def)
    then obtain d where d: "search_standalone None ?t = Some d" by blast
    from search_standalone_Some [OF d] have "d = ?t ! (LEAST i. standalone_at ?t i)"
      by (simp add: standalone_at_def [abs_def])
    with d show ?thesis by (simp add: llm_predict_binary_def Let_def int_of_bit_def)
  qed
  have b: "llm_predict_binary content = (if ?t ! n = CHR ''1'' then 1 else 0, [])"
    if "\<forall>i. \<not> standalone_at ?t i" and "leading_at ?t n" for n
  proof -
    from that(1) have "search_standalone None ?t = None"
      by (simp add: search_standalone_None standalone_at_def)
    moreover from that(2) have "search_leading ?t = Some (?t ! n)" by (rule search_leading_at)
    ultimately show ?thesis by (simp add: llm_predict_binary_def Let_def int_of_bit_def)
  qed
  have c: "llm_predict_binary content = (0, [CouldNotParseBinary ?t])"
    if "\<forall>i. \<not> standalone_at ?t i" and "\<forall>n. \<not> leading_at ?t n"
  proof -
    from that(1) have "search_standalone None ?t = None"
      by (simp add: search_standalone_None standalone_at_def)
    moreover from that(2) have "search_leading ?t = None" by (simp add: search_leading_None)
    ultimately show ?thesis by (simp add: llm_predict_binary_def Let_def)
  qed
  have d: "?t ! i = CHR ''0'' \<or> ?t ! i = CHR ''1''"
    if "standalone_at ?t i \<or> leading_at ?t i" for i
    using that by (auto simp: standalone_at_def standalone_from_def leading_at_def is_bit_def)
  from range a b c d show ?thesis by blast
qed

theorem llm_predict_binary_total_witness:
  "standalone_at ''1'' 0 \<and> llm_predict_binary (Some ''1'') = (1, [])
   \<and> standalone_at ''0'' 0 \<and> llm_predict_binary (Some ''0'') = (0, [])
   \<and> standalone_at ''a 0 1'' 2 \<and> llm_predict_binary (Some ''a 0 1'') = (0, [])
   \<and> (\<forall>i. \<not> standalone_at ''1a'' i) \<and> leading_at ''1a'' 0
       \<and> llm_predict_binary (Some ''1a'') = (1, [])
   \<and> (\<forall>i. \<not> standalone_at '' 0a'' i) \<and> leading_at '' 0a'' 1
       \<and> llm_predict_binary (Some '' 0a'') = (0, [])
   \<and> (\<forall>i. \<not> standalone_at ''no'' i) \<and> (\<forall>n. \<not> leading_at ''no'' n)
       \<and> llm_predict_binary (Some ''no'') = (0, [CouldNotParseBinary ''no''])
   \<and> (\<forall>i. \<not> standalone_at ''x10'' i) \<and> (\<forall>n. \<not> leading_at ''x10'' n)
       \<and> llm_predict_binary (Some ''x10'') = (0, [CouldNotParseBinary ''x10''])"
proof -
  have s1: "standalone_at ''1'' 0"
    by (simp add: standalone_at_def standalone_from_def char_class_defs)
  then have l1: "(LEAST i. standalone_at ''1'' i) = 0" by (simp add: Least_eq_0)
  have r1: "llm_predict_binary (Some ''1'') = (1, [])"
    using llm_predict_binary_total [of "Some ''1''"] s1 l1
    by (auto simp: response_text_def)
  have s0: "standalone_at ''0'' 0"
    by (simp add: standalone_at_def standalone_from_def char_class_defs)
  then have l0: "(LEAST i. standalone_at ''0'' i) = 0" by (simp add: Least_eq_0)
  have r0: "llm_predict_binary (Some ''0'') = (0, [])"
    using llm_predict_binary_total [of "Some ''0''"] s0 l0
    by (auto simp: response_text_def)
  have s4: "standalone_at ''a 0 1'' 2"
    by (simp add: standalone_at_def standalone_from_def char_class_defs)
  have n40: "\<not> standalone_at ''a 0 1'' 0" and n41: "\<not> standalone_at ''a 0 1'' 1"
    by (simp_all add: standalone_at_def standalone_from_def char_class_defs)
  have l4: "(LEAST i. standalone_at ''a 0 1'' i) = 2"
  proof (rule Least_equality)
    show "standalone_at ''a 0 1'' 2" by (rule s4)
  next
    fix y assume y: "standalone_at ''a 0 1'' y"
    show "2 \<le> y"
    proof (rule ccontr)
      assume "\<not> 2 \<le> y"
      then have "y = 0 \<or> y = 1" by arith
      with y n40 n41 show False by auto
    qed
  qed
  have r4: "llm_predict_binary (Some ''a 0 1'') = (0, [])"
    using llm_predict_binary_total [of "Some ''a 0 1''"] s4 l4
    by (auto simp: response_text_def)
  have e2: "search_standalone None ''1a'' = None" by (simp add: char_class_defs)
  have s2: "\<forall>i. \<not> standalone_at ''1a'' i"
    unfolding standalone_at_def by (rule iffD1 [OF search_standalone_None e2])
  have l2: "leading_at ''1a'' 0" by (simp add: leading_at_def char_class_defs)
  have r2: "llm_predict_binary (Some ''1a'') = (1, [])"
    using llm_predict_binary_total [of "Some ''1a''"] s2 l2
    by (auto simp: response_text_def)
  have e5: "search_standalone None '' 0a'' = None" by (simp add: char_class_defs)
  have s5: "\<forall>i. \<not> standalone_at '' 0a'' i"
    unfolding standalone_at_def by (rule iffD1 [OF search_standalone_None e5])
  have l5: "leading_at '' 0a'' 1" by (simp add: leading_at_def char_class_defs)
  have r5: "llm_predict_binary (Some '' 0a'') = (0, [])"
    using llm_predict_binary_total [of "Some '' 0a''"] s5 l5
    by (auto simp: response_text_def)
  have e3: "search_standalone None ''no'' = None" by (simp add: char_class_defs)
  have s3: "\<forall>i. \<not> standalone_at ''no'' i"
    unfolding standalone_at_def by (rule iffD1 [OF search_standalone_None e3])
  have f3: "search_leading ''no'' = None" by (simp add: search_leading_def char_class_defs)
  have l3: "\<forall>n. \<not> leading_at ''no'' n" by (rule iffD1 [OF search_leading_None f3])
  have r3: "llm_predict_binary (Some ''no'') = (0, [CouldNotParseBinary ''no''])"
    using llm_predict_binary_total [of "Some ''no''"] s3 l3
    by (auto simp: response_text_def)
  have e6: "search_standalone None ''x10'' = None" by (simp add: char_class_defs)
  have s6: "\<forall>i. \<not> standalone_at ''x10'' i"
    unfolding standalone_at_def by (rule iffD1 [OF search_standalone_None e6])
  have f6: "search_leading ''x10'' = None" by (simp add: search_leading_def char_class_defs)
  have l6: "\<forall>n. \<not> leading_at ''x10'' n" by (rule iffD1 [OF search_leading_None f6])
  have r6: "llm_predict_binary (Some ''x10'') = (0, [CouldNotParseBinary ''x10''])"
    using llm_predict_binary_total [of "Some ''x10''"] s6 l6
    by (auto simp: response_text_def)
  from s1 r1 s0 r0 s4 r4 s2 l2 r2 s5 l5 r5 s3 l3 r3 s6 l6 r6 show ?thesis by blast
qed

section \<open>Properties of the identifier normalizer\<close>

text \<open>Floor and ceiling of a quotient of numerals, for evaluating the rounding.\<close>

lemma floor_rat_numeral_div:
  "\<lfloor>numeral a / numeral b :: rat\<rfloor> = numeral a div numeral b"
  using floor_divide_of_int_eq [of "numeral a" "numeral b", where ?'a = rat] by simp

lemma ceiling_rat_numeral_div:
  "\<lceil>numeral a / numeral b :: rat\<rceil> = - (- numeral a div numeral b)"
  using floor_divide_of_int_eq [of "- numeral a" "numeral b", where ?'a = rat]
  by (simp add: ceiling_def)

lemmas float_eval =
  to_double_def ilog2_def pow2_def round_half_even_def Let_def bitlen.simps
  floor_rat_numeral_div ceiling_rat_numeral_div

lemma to_double_eval:
  assumes "q \<noteq> 0" and "ilog2 \<bar>q\<bar> = k" and "max (k - 52) (- 1074) = e"
    and "round_half_even (\<bar>q\<bar> / pow2 e) = m" and "of_int m * pow2 e = v" and "v < pow2 1024"
  shows "to_double q = Fin (if q < 0 then - v else v)"
proof -
  from assms(2,3) have e: "max (ilog2 \<bar>q\<bar> - 52) (- 1074) = e" by simp
  from assms(6) have v: "\<not> pow2 1024 \<le> v" by simp
  show ?thesis
    unfolding to_double_def Let_def e assms(4) assms(5) using assms(1) v by simp
qed

lemma to_double_12345: "to_double 12345 = Fin 12345"
proof -
  have "to_double 12345 = Fin (if (12345::rat) < 0 then - 12345 else 12345)"
  proof (rule to_double_eval)
    show "(12345::rat) \<noteq> 0" by simp
    show "ilog2 \<bar>12345\<bar> = 13" by (simp add: ilog2_def bitlen.simps)
    show "max (13 - 52) (- 1074) = (- 39::int)" by simp
    show "round_half_even (\<bar>12345\<bar> / pow2 (- 39)) = 6786735522447360"
      by (simp add: round_half_even_def pow2_def Let_def)
    show "of_int 6786735522447360 * pow2 (- 39) = (12345::rat)" by (simp add: pow2_def)
    show "(12345::rat) < pow2 1024" by (simp add: pow2_def)
  qed
  then show ?thesis by simp
qed

lemma ID_INT_TOL_value: "ID_INT_TOL = Fin (4835703278458517 / 4835703278458516698824704)"
proof -
  let ?q = "1 / 10 ^ 9 :: rat"
  have "to_double ?q = Fin (if ?q < 0 then - (4835703278458517 / 4835703278458516698824704)
      else 4835703278458517 / 4835703278458516698824704)"
  proof (rule to_double_eval)
    show "?q \<noteq> 0" by simp
    show "ilog2 \<bar>?q\<bar> = - 30" by (simp add: ilog2_def bitlen.simps ceiling_rat_numeral_div)
    show "max (- 30 - 52) (- 1074) = (- 82::int)" by simp
    show "round_half_even (\<bar>?q\<bar> / pow2 (- 82)) = 4835703278458517"
      by (simp add: round_half_even_def pow2_def Let_def floor_rat_numeral_div)
    show "of_int 4835703278458517 * pow2 (- 82) = (4835703278458517 / 4835703278458516698824704 :: rat)"
      by (simp add: pow2_def)
    show "(4835703278458517 / 4835703278458516698824704 :: rat) < pow2 1024" by (simp add: pow2_def)
  qed
  then show ?thesis by (simp add: ID_INT_TOL_def)
qed

lemma near_int_self: "near_int (of_int r) r"
  by (simp add: near_int_def ID_INT_TOL_value)

lemma str_int_12345: "str_int 12345 = ''12345''"
  by code_simp

lemmas parse_defs =
  float_of_str_def float_strip_def is_float_space_def strip_def underscores_ok.simps split_sign_def parse_decimal_def
  parse_exponent_def digits_value_def pow10_def lower_def lower_char_def
  is_space_def is_digit_def is_upper_AZ_def code_def Let_def

lemma float_of_str_12345_0: "float_of_str ''12345.0'' = Some (Fin 12345)"
  by (simp add: parse_defs to_double_12345)

lemma float_of_str_12345_00: "float_of_str ''12345.00'' = Some (Fin 12345)"
  by (simp add: parse_defs to_double_12345)

lemma float_of_str_abc: "float_of_str ''abc-1'' = None"
  by (simp add: parse_defs)

lemma normalize_id_int_12345: "normalize_id_value frepr (PyInt 12345) = PyStr ''12345''"
  using near_int_self [of 12345]
  by (simp add: normalize_id_value_def isna_def py_float_def to_double_12345
      round_half_even_def str_int_12345)

lemma normalize_id_str_12345_0: "normalize_id_value frepr (PyStr ''12345.0'') = PyStr ''12345''"
  using near_int_self [of 12345]
  by (simp add: normalize_id_value_def isna_def py_float_def float_of_str_12345_0
      round_half_even_def str_int_12345)

lemma normalize_id_str_12345_00: "normalize_id_value frepr (PyStr ''12345.00'') = PyStr ''12345''"
  using near_int_self [of 12345]
  by (simp add: normalize_id_value_def isna_def py_float_def float_of_str_12345_00
      round_half_even_def str_int_12345)

lemma normalize_id_str_abc: "normalize_id_value frepr (PyStr ''abc-1'') = PyStr ''abc-1''"
  by (simp add: normalize_id_value_def isna_def py_float_def float_of_str_abc
      normalize_id_text_def py_str_def strip_def match_int_zeros_def is_space_def is_digit_def code_def)

lemma normalize_id_missing: "isna v \<Longrightarrow> normalize_id_value frepr v = PyFloat NaN"
  by (simp add: normalize_id_value_def)

lemma bitlen_pos: "0 < m \<Longrightarrow> 1 \<le> bitlen m"
proof -
  assume m: "0 < m"
  have "0 \<le> bitlen k" for k
    by (induction k rule: bitlen.induct) (simp add: bitlen.simps)
  from this [of "m div 2"] m show ?thesis by (simp add: bitlen.simps)
qed

lemma bitlen_le: "m < 2 ^ k \<Longrightarrow> bitlen m \<le> int k"
proof (induction k arbitrary: m)
  case 0
  then show ?case by (simp add: bitlen.simps)
next
  case (Suc k)
  show ?case
  proof (cases "m \<le> 0")
    case True
    then show ?thesis by (simp add: bitlen.simps)
  next
    case False
    from Suc.prems have "m div 2 < 2 ^ k" by simp
    then have "bitlen (m div 2) \<le> int k" by (rule Suc.IH)
    with False show ?thesis by (simp add: bitlen.simps)
  qed
qed

lemma round_half_even_of_int: "round_half_even (of_int z) = z"
  by (simp add: round_half_even_def Let_def)

lemma to_double_of_int:
  assumes "\<bar>n\<bar> < 2 ^ 53"
  shows "to_double (of_int n) = Fin (of_int n)"
proof (cases "n = 0")
  case True
  then show ?thesis by (simp add: to_double_def)
next
  case False
  let ?q = "of_int n :: rat"
  let ?a = "\<bar>n\<bar>"
  from False have pos: "0 < ?a" by simp
  have abs: "\<bar>?q\<bar> = of_int ?a" by simp
  have k1: "1 \<le> bitlen ?a" using pos by (rule bitlen_pos)
  have k2: "bitlen ?a \<le> 53" using bitlen_le [OF assms] by simp
  define j where "j = nat (53 - bitlen ?a)"
  have e: "bitlen ?a - 1 - 52 = - int j" using k2 by (simp add: j_def)
  from pos have "1 \<le> ?a" by simp
  then have "of_int 1 \<le> (of_int ?a :: rat)" by (simp only: of_int_le_iff)
  then have one: "(1::rat) \<le> of_int ?a" by simp
  have il: "ilog2 \<bar>?q\<bar> = bitlen ?a - 1"
    unfolding abs using one by (simp add: ilog2_def del: of_int_abs)
  have jle: "j \<le> 52" using k1 by (simp add: j_def)
  have mx: "max (bitlen ?a - 1 - 52) (- 1074) = - int j"
    using e jle by simp
  have p: "pow2 (- int j) = 1 / 2 ^ j"
    by (cases "j = 0") (simp_all add: pow2_def)
  have sc: "\<bar>?q\<bar> / pow2 (- int j) = of_int (?a * 2 ^ j)"
    unfolding abs p by simp
  have r: "round_half_even (\<bar>?q\<bar> / pow2 (- int j)) = ?a * 2 ^ j"
    unfolding sc by (rule round_half_even_of_int)
  have v: "of_int (?a * 2 ^ j) * pow2 (- int j) = (of_int ?a :: rat)"
    unfolding p by simp
  have "(of_int ?a :: rat) < of_int (2 ^ 53)" using assms by (simp only: of_int_less_iff)
  also have "\<dots> < pow2 1024" by (simp add: pow2_def)
  finally have lt: "(of_int ?a :: rat) < pow2 1024" .
  have q0: "?q \<noteq> 0" using False by simp
  have "to_double ?q = Fin (if ?q < 0 then - of_int ?a else of_int ?a)"
    by (rule to_double_eval [OF q0 il mx r v lt])
  then show ?thesis by (simp add: abs_if)
qed

lemma normalize_id_integral:
  assumes "\<not> isna v" and "py_float v = Inr (Fin (of_int n))"
  shows "normalize_id_value frepr v = PyStr (str_int n)"
  using assms near_int_self [of n]
  by (simp add: normalize_id_value_def round_half_even_of_int)

lemma normalize_id_not_numeric:
  assumes "float_of_str s = None"
  shows "normalize_id_value frepr (PyStr s)
     = PyStr (case match_int_zeros (strip s) of Some g \<Rightarrow> g | None \<Rightarrow> strip s)"
  using assms
  by (simp add: normalize_id_value_def isna_def py_float_def normalize_id_text_def py_str_def
      Let_def split: option.splits)

lemma strip_decomposition:
  "\<exists>pre post. s = pre @ strip s @ post \<and> list_all is_space pre \<and> list_all is_space post"
proof -
  let ?a = "takeWhile is_space s"
  let ?b = "dropWhile is_space s"
  let ?c = "takeWhile is_space (rev ?b)"
  let ?d = "dropWhile is_space (rev ?b)"
  have b: "?b = rev ?d @ rev ?c"
    by (metis rev_append rev_rev_ident takeWhile_dropWhile_id)
  have "s = ?a @ ?b" by simp
  with b have "s = ?a @ strip s @ rev ?c" by (simp add: strip_def)
  moreover have "list_all is_space ?a" by (auto simp: list_all_iff dest: set_takeWhileD)
  moreover have "list_all is_space (rev ?c)" by (auto simp: list_all_iff dest: set_takeWhileD)
  ultimately show ?thesis by blast
qed

lemma last_dropWhile: "dropWhile P xs \<noteq> [] \<Longrightarrow> last (dropWhile P xs) = last xs"
  by (metis last_appendR takeWhile_dropWhile_id)

lemma strip_ends:
  assumes "strip s \<noteq> []"
  shows "\<not> is_space (hd (strip s)) \<and> \<not> is_space (last (strip s))"
proof -
  let ?b = "dropWhile is_space s"
  let ?d = "dropWhile is_space (rev ?b)"
  from assms have d: "?d \<noteq> []" by (simp add: strip_def)
  have b: "?b \<noteq> []"
  proof
    assume e: "?b = []"
    have "?d = []" unfolding e by simp
    with d show False by contradiction
  qed
  have l: "last (strip s) = hd ?d" using d by (simp add: strip_def last_rev)
  have "\<not> is_space (hd ?d)" using d by (rule hd_dropWhile)
  with l have 1: "\<not> is_space (last (strip s))" by simp
  have "hd (strip s) = last ?d" using d by (simp add: strip_def hd_rev)
  also have "\<dots> = last (rev ?b)" using d by (rule last_dropWhile)
  also have "\<dots> = hd ?b" using b by (simp add: last_rev)
  finally have "hd (strip s) = hd ?b" .
  moreover have "\<not> is_space (hd ?b)" using b by (rule hd_dropWhile)
  ultimately show ?thesis using 1 by simp
qed

lemma float_of_str_padded_abc: "float_of_str '' abc-1 '' = None"
  by (simp add: parse_defs)

lemma normalize_id_str_padded_abc:
  "normalize_id_value frepr (PyStr '' abc-1 '') = PyStr ''abc-1''"
  by (simp add: normalize_id_not_numeric float_of_str_padded_abc strip_def match_int_zeros_def
      is_space_def is_digit_def code_def)

lemma float_of_str_us: "float_of_str [CHR ''1'', CHR ''2'', CHR ''.'', CHR ''0'', CHR 0x1F] = None"
  by (simp add: parse_defs)

lemma normalize_id_str_us:
  "normalize_id_value frepr (PyStr [CHR ''1'', CHR ''2'', CHR ''.'', CHR ''0'', CHR 0x1F]) = PyStr ''12''"
  by (simp add: normalize_id_not_numeric float_of_str_us strip_def match_int_zeros_def
      is_space_def is_digit_def code_def)

lemma str_int_neg7: "str_int (- 7) = ''-7''"
  by code_simp

text \<open>
  Claim C3: identifier normalization is merge-invariant. Every identifier that is not
  missing and that \<open>float()\<close> reads as an integer normalizes to the decimal text of that
  integer, whatever its form: so the integer 12345 and the strings \<open>"12345.0"\<close> and
  \<open>"12345.00"\<close> all give \<open>"12345"\<close>, and every integer below \<open>2^53\<close> in size gives its own
  decimal text. A string that \<open>float()\<close> refuses normalizes to its stripped form (with a tail
  \<open>.0...0\<close> after digits removed): \<open>"abc-1"\<close>, also with white space around it, gives
  \<open>"abc-1"\<close>. Stripping removes white space, and only white space, from both ends. A missing
  value (\<open>None\<close> or NaN) normalizes to the missing value NaN. This holds whatever the printing
  of floats is.
\<close>

theorem normalize_id_merge_invariant:
  "normalize_id_value frepr (PyInt 12345) = PyStr ''12345''
   \<and> normalize_id_value frepr (PyStr ''12345.0'') = PyStr ''12345''
   \<and> normalize_id_value frepr (PyStr ''12345.00'') = PyStr ''12345''
   \<and> normalize_id_value frepr (PyStr ''abc-1'') = PyStr ''abc-1''
   \<and> normalize_id_value frepr PyNone = PyFloat NaN
   \<and> normalize_id_value frepr (PyFloat NaN) = PyFloat NaN
   \<and> normalize_id_value frepr (PyStr '' abc-1 '') = PyStr ''abc-1''
   \<and> normalize_id_value frepr (PyStr [CHR ''1'', CHR ''2'', CHR ''.'', CHR ''0'', CHR 0x1F]) = PyStr ''12''
   \<and> normalize_id_value frepr (PyInt (- 7)) = PyStr ''-7''
   \<and> (isna v \<longrightarrow> normalize_id_value frepr v = PyFloat NaN)
   \<and> (\<not> isna v \<and> py_float v = Inr (Fin (of_int n)) \<longrightarrow>
        normalize_id_value frepr v = PyStr (str_int n))
   \<and> (\<bar>m\<bar> < 2 ^ 53 \<longrightarrow>
        py_float (PyInt m) = Inr (Fin (of_int m))
        \<and> normalize_id_value frepr (PyInt m) = PyStr (str_int m))
   \<and> (float_of_str s = None \<longrightarrow>
        normalize_id_value frepr (PyStr s)
          = PyStr (case match_int_zeros (strip s) of Some g \<Rightarrow> g | None \<Rightarrow> strip s))
   \<and> (\<exists>pre post. s = pre @ strip s @ post \<and> list_all is_space pre \<and> list_all is_space post)
   \<and> (strip s \<noteq> [] \<longrightarrow> \<not> is_space (hd (strip s)) \<and> \<not> is_space (last (strip s)))"
proof -
  have conv: "py_float (PyInt m) = Inr (Fin (of_int m))" if "\<bar>m\<bar> < 2 ^ 53" for m
    using to_double_of_int [OF that] by (simp add: py_float_def)
  have ints: "normalize_id_value frepr (PyInt m) = PyStr (str_int m)" if "\<bar>m\<bar> < 2 ^ 53" for m
    using conv [OF that] by (intro normalize_id_integral) (simp_all add: isna_def)
  have neg: "normalize_id_value frepr (PyInt (- 7)) = PyStr ''-7''"
    using ints [of "- 7"] by (simp add: str_int_neg7)
  show ?thesis
    using conv [of m] ints [of m] neg normalize_id_int_12345 [of frepr]
      normalize_id_str_12345_0 [of frepr] normalize_id_str_12345_00 [of frepr]
      normalize_id_str_abc [of frepr] normalize_id_str_padded_abc [of frepr]
      normalize_id_str_us [of frepr] normalize_id_missing [of v frepr]
      normalize_id_missing [of PyNone frepr] normalize_id_missing [of "PyFloat NaN" frepr]
      normalize_id_integral [of v n frepr] normalize_id_not_numeric [of s frepr]
      strip_decomposition [of s] strip_ends [of s]
    by (simp add: isna_def)
qed

theorem normalize_id_merge_invariant_witness:
  "isna (PyFloat NaN) \<and> normalize_id_value (\<lambda>f. []) (PyFloat NaN) = PyFloat NaN
   \<and> \<not> isna (PyStr ''12345.0'') \<and> py_float (PyStr ''12345.0'') = Inr (Fin (of_int 12345))
   \<and> normalize_id_value (\<lambda>f. []) (PyStr ''12345.0'') = PyStr (str_int 12345)
   \<and> \<bar>12345 :: int\<bar> < 2 ^ 53
   \<and> normalize_id_value (\<lambda>f. []) (PyInt 12345) = PyStr (str_int 12345)
   \<and> str_int 12345 = ''12345''
   \<and> float_of_str '' abc-1 '' = None
   \<and> strip '' abc-1 '' = ''abc-1''
   \<and> normalize_id_value (\<lambda>f. []) (PyStr '' abc-1 '') = PyStr ''abc-1''"
proof -
  have a: "isna (PyFloat NaN)" by (simp add: isna_def)
  have b: "\<not> isna (PyStr ''12345.0'')" by (simp add: isna_def)
  have c: "py_float (PyStr ''12345.0'') = Inr (Fin (of_int 12345))"
    by (simp add: py_float_def float_of_str_12345_0)
  have d: "\<bar>12345 :: int\<bar> < 2 ^ 53" by simp
  have e: "strip '' abc-1 '' = ''abc-1''" by (simp add: strip_def is_space_def code_def)
  have f: "match_int_zeros ''abc-1'' = None"
    by (simp add: match_int_zeros_def is_digit_def code_def)
  show ?thesis
    using normalize_id_merge_invariant
      [of "\<lambda>f. []" "PyFloat NaN" 0 0 "[]"]
      normalize_id_merge_invariant
      [of "\<lambda>f. []" "PyStr ''12345.0''" 12345 12345 "'' abc-1 ''"]
      a b c d e f float_of_str_padded_abc str_int_12345
    by simp
qed

section \<open>Properties of the merge\<close>

text \<open>
  Claim C4: the merge keys are the canonical identifier and the canonical construct key if
  and only if the identifier column was supplied and both tables have it; otherwise they are
  the canonical construct key alone and the fallback warning is emitted. The step returns its
  keys in every case: it has no failure.
\<close>

theorem plan_merge_keys_iff:
  "(fst (plan_merge_keys id_col raw_cols coded_cols) = [''_id_key'', ''_construct_canon''])
     = (has_id id_col raw_cols \<and> has_id id_col coded_cols)
   \<and> (c \<noteq> [] \<longrightarrow> has_id (Some c) cols = (c \<in> set cols))
   \<and> (has_id id_col raw_cols \<and> has_id id_col coded_cols \<longrightarrow>
        plan_merge_keys id_col raw_cols coded_cols = ([''_id_key'', ''_construct_canon''], []))
   \<and> (\<not> (has_id id_col raw_cols \<and> has_id id_col coded_cols) \<longrightarrow>
        plan_merge_keys id_col raw_cols coded_cols
          = ([''_construct_canon''], [IdMissingFallback id_col]))"
  by (auto simp: plan_merge_keys_def has_id_def)

theorem plan_merge_keys_iff_witness:
  "plan_merge_keys (Some ''sid'') [''sid'', ''text''] [''sid'', ''Comment'']
     = ([''_id_key'', ''_construct_canon''], [])
   \<and> plan_merge_keys (Some ''sid'') [''sid'', ''text''] [''Comment'']
     = ([''_construct_canon''], [IdMissingFallback (Some ''sid'')])
   \<and> has_id (Some ''sid'') [''sid'', ''text'']"
proof -
  have a: "has_id (Some ''sid'') [''sid'', ''text'']"
    using plan_merge_keys_iff [of None "[]" "[]" "''sid''" "[''sid'', ''text'']"] by simp
  have b: "has_id (Some ''sid'') [''sid'', ''Comment'']"
    using plan_merge_keys_iff [of None "[]" "[]" "''sid''" "[''sid'', ''Comment'']"] by simp
  have c: "\<not> has_id (Some ''sid'') [''Comment'']"
    using plan_merge_keys_iff [of None "[]" "[]" "''sid''" "[''Comment'']"] by simp
  show ?thesis
    using plan_merge_keys_iff [of "Some ''sid''" "[''sid'', ''text'']" "[''sid'', ''Comment'']" "[]" "[]"]
      plan_merge_keys_iff [of "Some ''sid''" "[''sid'', ''text'']" "[''Comment'']" "[]" "[]"] a b c
    by simp
qed

lemma left_merge_Nil: "left_merge key missing [] right = []"
  by (simp add: left_merge_def)

lemma left_merge_Cons:
  "left_merge key missing (r # rs) right =
     (case matches (key r) right of [] \<Rightarrow> [(r, missing)] | v # vs \<Rightarrow> map (\<lambda>w. (r, w)) (v # vs))
     @ left_merge key missing rs right"
  by (simp add: left_merge_def)

lemma left_merge_rows:
  "map fst (left_merge key missing left right)
     = concat (map (\<lambda>r. replicate (max 1 (length (matches (key r) right))) r) left)"
proof (induction left)
  case Nil
  show ?case by (simp add: left_merge_Nil)
next
  case (Cons r rs)
  have "map fst (case matches (key r) right of [] \<Rightarrow> [(r, missing)]
                   | v # vs \<Rightarrow> map (\<lambda>w. (r, w)) (v # vs))
        = replicate (max 1 (length (matches (key r) right))) r"
    by (cases "matches (key r) right") (simp_all add: comp_def map_replicate_const)
  with Cons show ?case by (simp add: left_merge_Cons)
qed

lemma matches_distinct:
  "distinct (map fst right) \<Longrightarrow> length (matches k right) \<le> 1"
proof (induction right)
  case Nil
  show ?case by (simp add: matches_def)
next
  case (Cons kv right)
  have "matches k right = []" if "fst kv = k"
  proof -
    from Cons.prems that have "k \<notin> fst ` set right" by simp
    then have "filter (\<lambda>kv. fst kv = k) right = []"
      by (auto simp: filter_empty_conv)
    then show ?thesis by (simp add: matches_def)
  qed
  moreover have "length (matches k right) \<le> 1" using Cons by simp
  ultimately show ?case by (auto simp: matches_def)
qed

lemma left_merge_unmatched:
  "r \<in> set left \<Longrightarrow> matches (key r) right = [] \<Longrightarrow>
     (r, missing) \<in> set (left_merge key missing left right)"
  by (induction left) (auto simp: left_merge_Nil left_merge_Cons split: list.splits)

definition coded_keys :: "string list \<Rightarrow> coded_row list \<Rightarrow> (pyval option \<times> string) list" where
  "coded_keys merge_keys coded =
     map (\<lambda>c. key_value merge_keys (coded_id_key c) (coded_construct_canon c)) coded"

definition n_matching :: "string list \<Rightarrow> coded_row list \<Rightarrow> raw_row \<Rightarrow> nat" where
  "n_matching merge_keys coded r =
     length (filter (\<lambda>k. k = key_value merge_keys (raw_id_key r) (raw_construct_canon r))
               (coded_keys merge_keys coded))"

lemma n_matching_matches:
  "length (matches (key_value ks (raw_id_key r) (raw_construct_canon r))
      (map (\<lambda>c. (key_value ks (coded_id_key c) (coded_construct_canon c), human_label c)) coded))
   = n_matching ks coded r"
  by (simp add: matches_def n_matching_def coded_keys_def filter_map comp_def)

text \<open>
  Claim C1: every row of the raw table appears exactly once in the output of the merge,
  whatever the tables and however many coded rows share a merge key. Two things stand
  against it. A left join repeats a raw row for every coded row that has its merge key, so a
  raw row appears as many times as coded rows have its key. And the merge raises
  \<open>ValueError\<close>, and gives no output at all, when both tables have rows, the identifier is a
  merge key, and the identifiers are all missing in one table and not in the other. When it
  does not raise, no raw row is dropped: the merged table holds the raw rows in their order,
  each as many times as coded rows have its merge key, and once when none has; a raw row that
  no coded row matches is kept with a missing \<open>human_label\<close>; and when no two coded rows share
  a merge key, every raw row appears exactly once.
\<close>

theorem merge_tables_left_join:
  "(id_dtypes_clash ks raw coded \<longrightarrow> merge_tables ks raw coded = Inl ValueError)
   \<and> (\<not> id_dtypes_clash ks raw coded \<longrightarrow>
        (\<exists>rows. merge_tables ks raw coded = Inr rows
           \<and> map fst rows = concat (map (\<lambda>r. replicate (max 1 (n_matching ks coded r)) r) raw)
           \<and> (\<forall>r \<in> set raw. r \<in> set (map fst rows))
           \<and> (\<forall>r \<in> set raw. n_matching ks coded r = 0 \<longrightarrow> (r, NaN) \<in> set rows)
           \<and> (distinct (coded_keys ks coded) \<longrightarrow> map fst rows = raw)))
   \<and> (''_id_key'' \<notin> set ks \<or> raw = [] \<or> coded = [] \<longrightarrow> \<not> id_dtypes_clash ks raw coded)
   \<and> (list_all isna (map raw_id_key raw) = list_all isna (map coded_id_key coded) \<longrightarrow>
        \<not> id_dtypes_clash ks raw coded)"
proof -
  let ?key = "\<lambda>r. key_value ks (raw_id_key r) (raw_construct_canon r)"
  let ?right = "map (\<lambda>c. (key_value ks (coded_id_key c) (coded_construct_canon c), human_label c)) coded"
  let ?rows = "left_merge ?key NaN raw ?right"
  have rows: "map fst ?rows
     = concat (map (\<lambda>r. replicate (max 1 (n_matching ks coded r)) r) raw)"
    unfolding left_merge_rows by (simp add: n_matching_matches)
  have kept: "r \<in> set (map fst ?rows)" if "r \<in> set raw" for r
  proof -
    have "r \<in> set (replicate (max 1 (n_matching ks coded r)) r)" by simp
    with that show ?thesis unfolding rows by auto
  qed
  have missing: "(r, NaN) \<in> set ?rows"
    if "r \<in> set raw" and "n_matching ks coded r = 0" for r
  proof -
    from that(2) have "matches (?key r) ?right = []"
      using n_matching_matches [of ks r coded] by simp
    with that(1) show ?thesis by (rule left_merge_unmatched)
  qed
  have once: "map fst ?rows = raw" if d: "distinct (coded_keys ks coded)"
  proof -
    have "map fst ?right = coded_keys ks coded" by (simp add: coded_keys_def comp_def)
    with d have dd: "distinct (map fst ?right)" by simp
    have le: "n_matching ks coded r \<le> 1" for r
      using matches_distinct [OF dd, of "?key r"] n_matching_matches [of ks r coded] by simp
    have "max 1 (n_matching ks coded r) = 1" for r
      using le [of r] by (simp add: max_def)
    then show ?thesis unfolding rows by (simp add: concat_map_singleton)
  qed
  have ok: "\<exists>rows. merge_tables ks raw coded = Inr rows
           \<and> map fst rows = concat (map (\<lambda>r. replicate (max 1 (n_matching ks coded r)) r) raw)
           \<and> (\<forall>r \<in> set raw. r \<in> set (map fst rows))
           \<and> (\<forall>r \<in> set raw. n_matching ks coded r = 0 \<longrightarrow> (r, NaN) \<in> set rows)
           \<and> (distinct (coded_keys ks coded) \<longrightarrow> map fst rows = raw)"
    if "\<not> id_dtypes_clash ks raw coded"
  proof -
    from that have "merge_tables ks raw coded = Inr ?rows" by (simp add: merge_tables_def)
    with rows kept missing once show ?thesis by blast
  qed
  have err: "merge_tables ks raw coded = Inl ValueError" if "id_dtypes_clash ks raw coded"
    using that by (simp add: merge_tables_def)
  have c1: "\<not> id_dtypes_clash ks raw coded" if "''_id_key'' \<notin> set ks \<or> raw = [] \<or> coded = []"
    using that by (auto simp: id_dtypes_clash_def)
  have c2: "\<not> id_dtypes_clash ks raw coded"
    if "list_all isna (map raw_id_key raw) = list_all isna (map coded_id_key coded)"
    using that by (simp add: id_dtypes_clash_def)
  from ok err c1 c2 show ?thesis by blast
qed

lemmas merge_eval =
  merge_tables_def left_merge_def matches_def key_value_def
  n_matching_def coded_keys_def id_dtypes_clash_def isna_def

text \<open>Three merges. On the construct alone: a raw row without a coded row keeps a missing
  label. On the identifier and the construct: the coded row of another entity does not match.
  With identifiers that are all missing in the raw table and present in the coded table the
  merge raises.\<close>

theorem merge_tables_left_join_witness:
  "distinct (coded_keys [''_construct_canon'']
      [\<lparr>coded_id_key = PyStr ''1'', coded_construct_canon = ''comment'', human_label = Fin 1\<rparr>])
   \<and> n_matching [''_construct_canon'']
        [\<lparr>coded_id_key = PyStr ''1'', coded_construct_canon = ''comment'', human_label = Fin 1\<rparr>]
        \<lparr>raw_id_key = PyStr ''1'', raw_construct_canon = ''operator'', raw_cells = []\<rparr> = 0
   \<and> \<not> id_dtypes_clash [''_construct_canon'']
        [\<lparr>raw_id_key = PyStr ''1'', raw_construct_canon = ''comment'', raw_cells = []\<rparr>,
         \<lparr>raw_id_key = PyStr ''1'', raw_construct_canon = ''operator'', raw_cells = []\<rparr>]
        [\<lparr>coded_id_key = PyStr ''1'', coded_construct_canon = ''comment'', human_label = Fin 1\<rparr>]
   \<and> merge_tables [''_construct_canon'']
        [\<lparr>raw_id_key = PyStr ''1'', raw_construct_canon = ''comment'', raw_cells = []\<rparr>,
         \<lparr>raw_id_key = PyStr ''1'', raw_construct_canon = ''operator'', raw_cells = []\<rparr>]
        [\<lparr>coded_id_key = PyStr ''1'', coded_construct_canon = ''comment'', human_label = Fin 1\<rparr>]
      = Inr [(\<lparr>raw_id_key = PyStr ''1'', raw_construct_canon = ''comment'', raw_cells = []\<rparr>, Fin 1),
         (\<lparr>raw_id_key = PyStr ''1'', raw_construct_canon = ''operator'', raw_cells = []\<rparr>, NaN)]
   \<and> \<not> id_dtypes_clash [''_id_key'', ''_construct_canon'']
        [\<lparr>raw_id_key = PyStr ''1'', raw_construct_canon = ''comment'', raw_cells = []\<rparr>,
         \<lparr>raw_id_key = PyStr ''2'', raw_construct_canon = ''comment'', raw_cells = []\<rparr>,
         \<lparr>raw_id_key = PyFloat NaN, raw_construct_canon = ''comment'', raw_cells = []\<rparr>]
        [\<lparr>coded_id_key = PyStr ''2'', coded_construct_canon = ''comment'', human_label = Fin 0\<rparr>,
         \<lparr>coded_id_key = PyStr ''3'', coded_construct_canon = ''comment'', human_label = Fin 1\<rparr>]
   \<and> merge_tables [''_id_key'', ''_construct_canon'']
        [\<lparr>raw_id_key = PyStr ''1'', raw_construct_canon = ''comment'', raw_cells = []\<rparr>,
         \<lparr>raw_id_key = PyStr ''2'', raw_construct_canon = ''comment'', raw_cells = []\<rparr>,
         \<lparr>raw_id_key = PyFloat NaN, raw_construct_canon = ''comment'', raw_cells = []\<rparr>]
        [\<lparr>coded_id_key = PyStr ''2'', coded_construct_canon = ''comment'', human_label = Fin 0\<rparr>,
         \<lparr>coded_id_key = PyStr ''3'', coded_construct_canon = ''comment'', human_label = Fin 1\<rparr>]
      = Inr [(\<lparr>raw_id_key = PyStr ''1'', raw_construct_canon = ''comment'', raw_cells = []\<rparr>, NaN),
         (\<lparr>raw_id_key = PyStr ''2'', raw_construct_canon = ''comment'', raw_cells = []\<rparr>, Fin 0),
         (\<lparr>raw_id_key = PyFloat NaN, raw_construct_canon = ''comment'', raw_cells = []\<rparr>, NaN)]
   \<and> id_dtypes_clash [''_id_key'', ''_construct_canon'']
        [\<lparr>raw_id_key = PyFloat NaN, raw_construct_canon = ''comment'', raw_cells = []\<rparr>]
        [\<lparr>coded_id_key = PyStr ''1'', coded_construct_canon = ''comment'', human_label = Fin 1\<rparr>]
   \<and> merge_tables [''_id_key'', ''_construct_canon'']
        [\<lparr>raw_id_key = PyFloat NaN, raw_construct_canon = ''comment'', raw_cells = []\<rparr>]
        [\<lparr>coded_id_key = PyStr ''1'', coded_construct_canon = ''comment'', human_label = Fin 1\<rparr>]
      = Inl ValueError"
  using merge_tables_left_join [of "[''_construct_canon'']"
      "[\<lparr>raw_id_key = PyStr ''1'', raw_construct_canon = ''comment'', raw_cells = []\<rparr>,
        \<lparr>raw_id_key = PyStr ''1'', raw_construct_canon = ''operator'', raw_cells = []\<rparr>]"
      "[\<lparr>coded_id_key = PyStr ''1'', coded_construct_canon = ''comment'', human_label = Fin 1\<rparr>]"]
    merge_tables_left_join [of "[''_id_key'', ''_construct_canon'']"
      "[\<lparr>raw_id_key = PyStr ''1'', raw_construct_canon = ''comment'', raw_cells = []\<rparr>,
        \<lparr>raw_id_key = PyStr ''2'', raw_construct_canon = ''comment'', raw_cells = []\<rparr>,
        \<lparr>raw_id_key = PyFloat NaN, raw_construct_canon = ''comment'', raw_cells = []\<rparr>]"
      "[\<lparr>coded_id_key = PyStr ''2'', coded_construct_canon = ''comment'', human_label = Fin 0\<rparr>,
        \<lparr>coded_id_key = PyStr ''3'', coded_construct_canon = ''comment'', human_label = Fin 1\<rparr>]"]
    merge_tables_left_join [of "[''_id_key'', ''_construct_canon'']"
      "[\<lparr>raw_id_key = PyFloat NaN, raw_construct_canon = ''comment'', raw_cells = []\<rparr>]"
      "[\<lparr>coded_id_key = PyStr ''1'', coded_construct_canon = ''comment'', human_label = Fin 1\<rparr>]"]
  by (simp add: merge_eval)

text \<open>
  Claim C1 as stated fails: with the construct-only keys, one raw row and two coded rows
  of its construct (the labels of two entities) give two merged rows.
\<close>

theorem merge_tables_duplicates_counterexample:
  "merge_tables [''_construct_canon'']
      [\<lparr>raw_id_key = PyStr ''1'', raw_construct_canon = ''comment'', raw_cells = []\<rparr>]
      [\<lparr>coded_id_key = PyStr ''1'', coded_construct_canon = ''comment'', human_label = Fin 1\<rparr>,
       \<lparr>coded_id_key = PyStr ''2'', coded_construct_canon = ''comment'', human_label = Fin 0\<rparr>]
   = Inr [(\<lparr>raw_id_key = PyStr ''1'', raw_construct_canon = ''comment'', raw_cells = []\<rparr>, Fin 1),
          (\<lparr>raw_id_key = PyStr ''1'', raw_construct_canon = ''comment'', raw_cells = []\<rparr>, Fin 0)]"
  by (simp add: merge_eval)

section \<open>Properties of the scoring engine\<close>

definition rows_of :: "string \<Rightarrow> rat list \<Rightarrow> int list \<Rightarrow> merged_row list" where
  "rows_of c t p =
     map (\<lambda>tp. \<lparr>m_construct = c, m_human_label = Fin (fst tp), m_gpt_pred = snd tp\<rparr>) (zip t p)"

lemma overall_kappa_no_labels: "evaluable merged = [] \<Longrightarrow> overall_kappa merged = Inr None"
  by (simp add: overall_kappa_def)

text \<open>Small integers and the fractions met below are doubles.\<close>

lemma to_double_0: "to_double 0 = Fin 0"
  by (simp add: to_double_def)

lemma to_double_1: "to_double 1 = Fin 1"
  using to_double_of_int [of 1] by simp

lemma to_double_numeral: "numeral k < (2::int) ^ 53 \<Longrightarrow> to_double (numeral k) = Fin (numeral k)"
  using to_double_of_int [of "numeral k"] by simp

lemma to_double_half: "to_double (1 / 2) = Fin (1 / 2)"
proof -
  let ?q = "1 / 2 :: rat"
  have "to_double ?q = Fin (if ?q < 0 then - (1 / 2) else 1 / 2)"
  proof (rule to_double_eval)
    show "?q \<noteq> 0" by simp
    show "ilog2 \<bar>?q\<bar> = - 1" by (simp add: ilog2_def bitlen.simps)
    show "max (- 1 - 52) (- 1074) = (- 53::int)" by simp
    show "round_half_even (\<bar>?q\<bar> / pow2 (- 53)) = 4503599627370496"
      by (simp add: round_half_even_def pow2_def Let_def)
    show "of_int 4503599627370496 * pow2 (- 53) = (1 / 2 :: rat)" by (simp add: pow2_def)
    show "(1 / 2 :: rat) < pow2 1024" by (simp add: pow2_def)
  qed
  then show ?thesis by simp
qed

lemma to_double_3_2: "to_double (3 / 2) = Fin (3 / 2)"
proof -
  let ?q = "3 / 2 :: rat"
  have "to_double ?q = Fin (if ?q < 0 then - (3 / 2) else 3 / 2)"
  proof (rule to_double_eval)
    show "?q \<noteq> 0" by simp
    show "ilog2 \<bar>?q\<bar> = 0" by (simp add: ilog2_def bitlen.simps floor_rat_numeral_div)
    show "max (0 - 52) (- 1074) = (- 52::int)" by simp
    show "round_half_even (\<bar>?q\<bar> / pow2 (- 52)) = 6755399441055744"
      by (simp add: round_half_even_def pow2_def Let_def)
    show "of_int 6755399441055744 * pow2 (- 52) = (3 / 2 :: rat)" by (simp add: pow2_def)
    show "(3 / 2 :: rat) < pow2 1024" by (simp add: pow2_def)
  qed
  then show ?thesis by simp
qed




lemmas score_eval =
  float_of_int_def to_double_0 to_double_1 to_double_numeral to_double_half to_double_3_2
  np_sum_def pairwise_sum.simps float_sub_def

lemma kappa_all_ones: "cohen_kappa_score [1, 1, 1, 1] [1, 1, 1, 1] = Inr NaN"
  by (simp add: cohen_kappa_score_def unique_labels_def confusion_def Let_def score_eval)


text \<open>
  Claim C5: when the agreement coefficient is degenerate, the per-construct coefficient is
  reported as absent, not as NaN. The code computes it inside a \<open>try\<close> whose handler sets
  \<open>None\<close>, but \<open>cohen_kappa_score\<close> does not raise on a single class: it divides zero by zero
  and returns NaN. At true = [1,1,1,1], pred = [1,1,1,1] the record holds NaN. The second
  part holds: with no human label at all the overall coefficient is \<open>None\<close>.
\<close>

theorem degenerate_kappa_is_nan:
  "score_group ''c'' (rows_of ''c'' [1, 1, 1, 1] [1, 1, 1, 1])
     = Inr \<lparr>construct = ''c'', freq_in_data = Some (Fin 1), hum_gpt_kappa = Some NaN,
            hum_gpt_precision = Some (Fin 1), hum_gpt_recall = Some (Fin 1), n_eval = 4\<rparr>
   \<and> overall_kappa (rows_of ''c'' [1, 1, 1, 1] [1, 1, 1, 1]) = Inr (Some NaN)
   \<and> overall_kappa [\<lparr>m_construct = ''c'', m_human_label = NaN, m_gpt_pred = 0\<rparr>] = Inr None"
  by (simp add: score_group_def overall_kappa_def rows_of_def evaluable_def astype_int_def
      kappa_all_ones precision_score_def recall_score_def binary_check_def unique_labels_def
      confusion_def Let_def score_eval)













section \<open>Properties of the rendering utility\<close>

lemma update_col_error:
  "find (\<lambda>c. col_name c = name) df = Some c \<Longrightarrow> sequence (map f (col_cells c)) = Inl e \<Longrightarrow>
     \<exists>e'. update_col name f dt df = Inl e'"
proof (induction df)
  case Nil
  then show ?case by simp
next
  case (Cons d df)
  show ?case
  proof (cases "col_name d = name")
    case True
    with Cons.prems have "d = c" by simp
    with True Cons.prems(2) show ?thesis by (simp add: update_col_def)
  next
    case False
    with Cons.prems have "find (\<lambda>c. col_name c = name) df = Some c" by simp
    from Cons.IH [OF this Cons.prems(2)] obtain e' where "update_col name f dt df = Inl e'" ..
    with False show ?thesis by (auto simp: update_col_def split: sum.splits)
  qed
qed

lemma freq_cell_None: "freq_cell PyNone = Inl ValueError"
  by (simp add: freq_cell_def astype_float_def fmul_def round0_def rint_def astype_int_def)

lemma sequence_map_error:
  "x \<in> set xs \<Longrightarrow> f x = Inl e \<Longrightarrow> \<exists>e'. sequence (map f xs) = Inl e'"
  by (induction xs) (auto split: sum.splits)

lemma pretty_format_absent_freq:
  assumes "m \<in> set records" and "freq_in_data m = None"
  shows "\<exists>e. pretty_format (load_to_df records) = Inl e"
proof -
  let ?cells = "map (\<lambda>m. opt_cell (freq_in_data m)) records"
  let ?c = "\<lparr>col_name = ''freq_in_data'', col_dtype = Number, col_cells = ?cells\<rparr>"
  from assms have ne: "records \<noteq> []" by auto
  from assms have "PyNone \<in> set ?cells" by (force simp: opt_cell_def)
  then obtain e where s: "sequence (map freq_cell ?cells) = Inl e"
    using sequence_map_error [of PyNone ?cells freq_cell ValueError] freq_cell_None by blast
  have f: "find (\<lambda>c. col_name c = ''freq_in_data'') (load_to_df records) = Some ?c"
    using ne by (simp add: load_to_df_def)
  from update_col_error [OF f] s obtain e' where
    "update_col ''freq_in_data'' freq_cell Object (load_to_df records) = Inl e'"
    by force
  then show ?thesis by (simp add: pretty_format_def)
qed

text \<open>
  Claim C9: \<open>pretty_format\<close> accepts every per-construct document of the core, also one with
  a record whose metrics are \<open>None\<close> because its construct has no evaluable row. The code
  casts the frequency column to \<open>int\<close>, which raises on a missing value: the document of a
  single construct whose only row has no human label is refused.
\<close>

theorem pretty_format_raises_on_absent:
  "score_group ''Comment'' [\<lparr>m_construct = ''Comment'', m_human_label = NaN, m_gpt_pred = 0\<rparr>]
     = Inr \<lparr>construct = ''Comment'', freq_in_data = None, hum_gpt_kappa = None,
            hum_gpt_precision = None, hum_gpt_recall = None, n_eval = 0\<rparr>
   \<and> pretty_format (load_to_df
        [\<lparr>construct = ''Comment'', freq_in_data = None, hum_gpt_kappa = None,
          hum_gpt_precision = None, hum_gpt_recall = None, n_eval = 0\<rparr>])
     = Inl ValueError"
  by (simp add: score_group_def evaluable_def pretty_format_def load_to_df_def update_col_def
      opt_cell_def freq_cell_None)

section \<open>Properties of the reshaper\<close>




text \<open>The characters that the canonical form keeps: a lower-case letter or a digit.\<close>

definition kept :: "char \<Rightarrow> bool" where
  "kept c = (is_lower_az c \<or> is_digit c)"

















section \<open>Properties of the column coercer\<close>

definition text_column :: "string \<Rightarrow> column" where
  "text_column name = \<lparr>col_name = name, col_dtype = Object, col_cells = [PyStr ''x = 1'']\<rparr>"

lemma coerce_no_id:
  "coerce_raw_columns frepr [text_column ''a''] None ''code_change_text'' ''construct_name''
     = Inr [text_column ''code_change_text'']"
  by code_simp

text \<open>
  Claim C10: \<open>coerce_raw_columns\<close> never raises, its result holds the text column for every
  table with at least one column, and so the driver's check for the text column can only fail
  for a table without columns. The code raises \<open>IndexError\<close> on a table without columns
  (\<open>cols[-1]\<close>); on the one-column table \<open>[a]\<close> with \<open>id_col = "sid"\<close> it renames \<open>a\<close> to the text
  column and then reads \<open>df["a"]\<close> in the identifier step, a \<open>KeyError\<close>; and on the table
  \<open>[code_change_text, b, c]\<close> of three text columns with \<open>id_col = "sid"\<close> the identifier step
  renames the first column, the text column, to \<open>sid\<close>, so that the driver's check fails on a
  table with three columns.
\<close>

theorem coerce_raw_columns_failures:
  "coerce_raw_columns frepr [] None ''code_change_text'' ''construct_name'' = Inl IndexError
   \<and> coerce_raw_columns frepr [text_column ''a''] (Some ''sid'') ''code_change_text'' ''construct_name''
       = Inl KeyError
   \<and> coerce_raw_columns frepr
         [text_column ''code_change_text'', text_column ''b'', text_column ''c'']
         (Some ''sid'') ''code_change_text'' ''construct_name''
       = Inr [text_column ''sid'', text_column ''b'', text_column ''c'']
   \<and> coerce_step frepr
         [text_column ''code_change_text'', text_column ''b'', text_column ''c'']
         (Some ''sid'') ''code_change_text'' ''construct_name''
       = Inl KeyError"
  by code_simp

end
